theory Spec2Isabelle
  imports Complex_Main
begin

section \<open>Reference maps of pysofe: \<open>pysofe/meshes/reference_map.py\<close>\<close>

text \<open>
  The class \<open>ReferenceMap\<close> evaluates, for all entities of a mesh at once, the affine
  maps from the reference domain to the physical elements, their derivatives, their
  inverses and the determinants of their Jacobians. It is written against numpy; the
  arrays are modelled as numpy stores them, a shape and a row-major buffer, and every
  numpy call of the source is a function of this theory that fails where numpy raises.

  Array elements are real numbers: the rounding of the IEEE doubles of the source is
  not modelled, and a division by zero, which numpy answers with \<open>inf\<close> or \<open>nan\<close>
  and a warning, has no counterpart here (in HOL \<open>x / 0 = 0\<close>), so every statement
  about a quotient carries the hypothesis that the divisor is not zero. For the same
  reason the model says nothing about the inverse of a matrix whose determinant is zero,
  where numpy raises or returns according to the rounding.
\<close>

subsection \<open>Exceptions\<close>

text \<open>
  The Python exceptions that the source and the numpy calls it makes can raise. The
  messages are the source's templates; the values formatted into them are left out.
\<close>

datatype error =
    IndexError
  | AxisError
  | ValueError string
  | TypeError string
  | AssertionError
  | UnboundLocalError string
  | NotImplementedError string
  | LinAlgError string

text \<open>Sequencing of calls that may raise: the first exception ends the evaluation.\<close>

definition bind_result :: "error + 'a \<Rightarrow> ('a \<Rightarrow> error + 'b) \<Rightarrow> error + 'b" where
  "bind_result r f = (case r of Inl e \<Rightarrow> Inl e | Inr x \<Rightarrow> f x)"

subsection \<open>Arrays\<close>

text \<open>
  An \<open>ndarray\<close> is its shape and its elements in row-major (C) order. \<open>ravel\<close> is the
  offset of a multi-index in the buffer, \<open>unravel\<close> its inverse, and \<open>of_fun\<close> builds the
  array of a given shape whose element at each multi-index is given by a function.
\<close>

record 'a ndarray =
  shape :: "nat list"
  flat :: "'a list"

definition nd_size :: "'a ndarray \<Rightarrow> nat" where
  "nd_size a = prod_list (shape a)"

definition wf_nd :: "'a ndarray \<Rightarrow> bool" where
  "wf_nd a = (length (flat a) = prod_list (shape a))"

fun in_bounds :: "nat list \<Rightarrow> nat list \<Rightarrow> bool" where
  "in_bounds [] [] = True"
| "in_bounds (n # ns) (i # ix) = (i < n \<and> in_bounds ns ix)"
| "in_bounds _ _ = False"

fun ravel :: "nat list \<Rightarrow> nat list \<Rightarrow> nat" where
  "ravel (n # ns) (i # ix) = i * prod_list ns + ravel ns ix"
| "ravel _ _ = 0"

fun unravel :: "nat list \<Rightarrow> nat \<Rightarrow> nat list" where
  "unravel [] k = []"
| "unravel (n # ns) k = (k div prod_list ns) # unravel ns (k mod prod_list ns)"

definition elem :: "'a ndarray \<Rightarrow> nat list \<Rightarrow> 'a" where
  "elem a ix = flat a ! ravel (shape a) ix"

definition of_fun :: "nat list \<Rightarrow> (nat list \<Rightarrow> 'a) \<Rightarrow> 'a ndarray" where
  "of_fun shp f = \<lparr>shape = shp, flat = map (\<lambda>k. f (unravel shp k)) [0..<prod_list shp]\<rparr>"

definition nd_map :: "('a \<Rightarrow> 'b) \<Rightarrow> 'a ndarray \<Rightarrow> 'b ndarray" where
  \<comment> \<open>an elementwise operation with a scalar, such as \<open>vertices - 1\<close>, \<open>1./P\<close>, \<open>np.sqrt\<close>\<close>
  "nd_map f a = \<lparr>shape = shape a, flat = map f (flat a)\<rparr>"

definition scalar :: "'a \<Rightarrow> 'a ndarray" where
  \<comment> \<open>a Python number used as an array: the 0-dimensional array\<close>
  "scalar x = \<lparr>shape = [], flat = [x]\<rparr>"

subsection \<open>The numpy calls of the source\<close>

definition np_size :: "'a ndarray \<Rightarrow> nat \<Rightarrow> error + nat" where
  \<comment> \<open>\<open>np.size(a, axis)\<close> is \<open>a.shape[axis]\<close>\<close>
  "np_size a axis = (if axis < length (shape a) then Inr (shape a ! axis) else Inl IndexError)"

definition np_atleast_2d :: "'a ndarray \<Rightarrow> 'a ndarray" where
  "np_atleast_2d a =
     (case shape a of
        [] \<Rightarrow> \<lparr>shape = [1, 1], flat = flat a\<rparr>
      | [n] \<Rightarrow> \<lparr>shape = [1, n], flat = flat a\<rparr>
      | _ \<Rightarrow> a)"

definition np_atleast_3d :: "'a ndarray \<Rightarrow> 'a ndarray" where
  "np_atleast_3d a =
     (case shape a of
        [] \<Rightarrow> \<lparr>shape = [1, 1, 1], flat = flat a\<rparr>
      | [n] \<Rightarrow> \<lparr>shape = [1, n, 1], flat = flat a\<rparr>
      | [m, n] \<Rightarrow> \<lparr>shape = [m, n, 1], flat = flat a\<rparr>
      | _ \<Rightarrow> a)"

definition index_ok :: "nat \<Rightarrow> int \<Rightarrow> bool" where
  \<comment> \<open>an index into an axis of length \<open>n\<close>: negative indices count from the end\<close>
  "index_ok n i = (- int n \<le> i \<and> i < int n)"

definition wrap_index :: "nat \<Rightarrow> int \<Rightarrow> nat" where
  "wrap_index n i = nat (if i < 0 then i + int n else i)"

definition np_take :: "'a ndarray \<Rightarrow> int ndarray \<Rightarrow> nat \<Rightarrow> error + 'a ndarray" where
  \<comment> \<open>\<open>a.take(indices, axis)\<close> in the default mode \<open>raise\<close>: the axis is replaced by the
      axes of the index array\<close>
  "np_take a idx axis =
     (if length (shape a) \<le> axis then Inl AxisError
      else if list_ex (\<lambda>i. \<not> index_ok (shape a ! axis) i) (flat idx) then Inl IndexError
      else Inr (of_fun (take axis (shape a) @ shape idx @ drop (Suc axis) (shape a))
             (\<lambda>ix. elem a (take axis ix
                       @ [wrap_index (shape a ! axis) (elem idx (take (length (shape idx)) (drop axis ix)))]
                       @ drop (axis + length (shape idx)) ix))))"

definition nonzero :: "bool ndarray \<Rightarrow> int ndarray" where
  \<comment> \<open>the positions of \<open>True\<close> in a one-dimensional boolean array\<close>
  "nonzero c = (let ks = filter (\<lambda>k. flat c ! k) [0..<length (flat c)]
                in \<lparr>shape = [length ks], flat = map int ks\<rparr>)"

definition np_compress :: "bool ndarray \<Rightarrow> 'a ndarray \<Rightarrow> nat \<Rightarrow> error + 'a ndarray" where
  \<comment> \<open>\<open>a.compress(condition, axis)\<close>: numpy takes the positions where the condition holds\<close>
  "np_compress c a axis = np_take a (nonzero c) axis"

datatype indexer = Slice | NewAxis | Idx int | Ellipsis

fun consumed :: "indexer list \<Rightarrow> nat" where
  "consumed [] = 0"
| "consumed (Slice # its) = Suc (consumed its)"
| "consumed (Idx i # its) = Suc (consumed its)"
| "consumed (it # its) = consumed its"

fun expand_index :: "nat \<Rightarrow> indexer list \<Rightarrow> indexer list" where
  "expand_index k [] = replicate k Slice"
| "expand_index k (Ellipsis # its) = replicate k Slice @ its"
| "expand_index k (it # its) = it # expand_index k its"

fun index_shape :: "indexer list \<Rightarrow> nat list \<Rightarrow> nat list option" where
  "index_shape [] [] = Some []"
| "index_shape (NewAxis # its) ns = map_option (Cons 1) (index_shape its ns)"
| "index_shape (Slice # its) (n # ns) = map_option (Cons n) (index_shape its ns)"
| "index_shape (Idx i # its) (n # ns) = (if index_ok n i then index_shape its ns else None)"
| "index_shape _ _ = None"

fun index_source :: "indexer list \<Rightarrow> nat list \<Rightarrow> nat list \<Rightarrow> nat list" where
  "index_source (NewAxis # its) ns (j # js) = index_source its ns js"
| "index_source (Slice # its) (n # ns) (j # js) = j # index_source its ns js"
| "index_source (Idx i # its) (n # ns) js = wrap_index n i # index_source its ns js"
| "index_source _ _ _ = []"

definition np_getitem :: "'a ndarray \<Rightarrow> indexer list \<Rightarrow> error + 'a ndarray" where
  \<comment> \<open>basic indexing \<open>a[...]\<close> with full slices \<open>:\<close>, \<open>None\<close>, integers and one ellipsis;
      too many indices and an integer out of range raise IndexError\<close>
  "np_getitem a its =
     (let its' = expand_index (length (shape a) - consumed its) its
      in case index_shape its' (shape a) of
           None \<Rightarrow> Inl IndexError
         | Some shp \<Rightarrow> Inr (of_fun shp (\<lambda>ix. elem a (index_source its' (shape a) ix))))"

definition bdim :: "nat \<Rightarrow> nat \<Rightarrow> nat option" where
  "bdim m n = (if m = n then Some m else if m = 1 then Some n else if n = 1 then Some m else None)"

fun bshape_rev :: "nat list \<Rightarrow> nat list \<Rightarrow> nat list option" where
  "bshape_rev [] ns = Some ns"
| "bshape_rev ms [] = Some ms"
| "bshape_rev (m # ms) (n # ns) =
     (case bdim m n of None \<Rightarrow> None | Some k \<Rightarrow> map_option (Cons k) (bshape_rev ms ns))"

definition broadcast_shapes :: "nat list \<Rightarrow> nat list \<Rightarrow> nat list option" where
  \<comment> \<open>numpy's broadcasting rule: shapes are aligned at their last axis; two lengths are
      compatible when they are equal or one of them is 1\<close>
  "broadcast_shapes s t = map_option rev (bshape_rev (rev s) (rev t))"

definition bindex :: "nat \<Rightarrow> nat \<Rightarrow> nat" where
  \<comment> \<open>an axis of length 1 is repeated along the axis of the result\<close>
  "bindex n i = (if n = 1 then 0 else i)"

definition bsource :: "nat list \<Rightarrow> nat list \<Rightarrow> nat list" where
  \<comment> \<open>the index into an operand of shape \<open>s\<close> for an index of the broadcast result\<close>
  "bsource s ix = map2 bindex s (drop (length ix - length s) ix)"

definition broadcast2 :: "('a \<Rightarrow> 'b \<Rightarrow> 'c) \<Rightarrow> 'a ndarray \<Rightarrow> 'b ndarray \<Rightarrow> error + 'c ndarray" where
  "broadcast2 f a b =
     (case broadcast_shapes (shape a) (shape b) of
        None \<Rightarrow> Inl (ValueError ''operands could not be broadcast together'')
      | Some shp \<Rightarrow>
          Inr (of_fun shp (\<lambda>ix. f (elem a (bsource (shape a) ix)) (elem b (bsource (shape b) ix)))))"

definition np_multiply :: "real ndarray \<Rightarrow> real ndarray \<Rightarrow> error + real ndarray" where
  "np_multiply = broadcast2 (\<lambda>x y. x * y)"

definition np_subtract :: "real ndarray \<Rightarrow> real ndarray \<Rightarrow> error + real ndarray" where
  "np_subtract = broadcast2 (\<lambda>x y. x - y)"

definition np_add :: "real ndarray \<Rightarrow> real ndarray \<Rightarrow> error + real ndarray" where
  "np_add = broadcast2 (\<lambda>x y. x + y)"

definition np_sum :: "real ndarray \<Rightarrow> int \<Rightarrow> error + real ndarray" where
  \<comment> \<open>\<open>a.sum(axis)\<close>\<close>
  "np_sum a axis =
     (if \<not> index_ok (length (shape a)) axis then Inl AxisError
      else Inr (of_fun (take (wrap_index (length (shape a)) axis) (shape a)
                        @ drop (Suc (wrap_index (length (shape a)) axis)) (shape a))
             (\<lambda>ix. sum_list (map (\<lambda>j. elem a (take (wrap_index (length (shape a)) axis) ix
                                              @ j # drop (wrap_index (length (shape a)) axis) ix))
                             [0..<shape a ! wrap_index (length (shape a)) axis]))))"

definition np_T :: "'a ndarray \<Rightarrow> 'a ndarray" where
  \<comment> \<open>\<open>a.T\<close> reverses the axes\<close>
  "np_T a = of_fun (rev (shape a)) (\<lambda>ix. elem a (rev ix))"

definition np_dstack :: "real ndarray \<Rightarrow> real ndarray \<Rightarrow> error + real ndarray" where
  \<comment> \<open>\<open>np.dstack([a, b])\<close>: both made at least 3-dimensional, then joined along axis 2\<close>
  "np_dstack a b =
     (let a' = np_atleast_3d a; b' = np_atleast_3d b
      in if length (shape a') \<noteq> length (shape b')
            \<or> (shape a')[2 := 0] \<noteq> (shape b')[2 := 0]
         then Inl (ValueError ''all the input array dimensions except for the concatenation axis must match exactly'')
         else Inr (of_fun ((shape a')[2 := shape a' ! 2 + shape b' ! 2])
                (\<lambda>ix. if ix ! 2 < shape a' ! 2 then elem a' ix
                       else elem b' (ix[2 := ix ! 2 - shape a' ! 2]))))"

text \<open>
  \<open>np.linalg.det\<close> and \<open>np.linalg.inv\<close> work on the last two axes of a stack of square
  matrices. They are modelled by what they compute in exact arithmetic: the determinant
  (expanded along the first row) and, for a stack of invertible matrices, the adjugate
  divided by the determinant.

  On a stack with a matrix whose determinant is zero the outcome of \<open>inv\<close> is decided by
  the rounding of its LU factorisation: numpy raises \<open>LinAlgError\<close> when a pivot comes out
  as exactly zero and returns an array of huge numbers otherwise. Real arithmetic cannot
  tell the two apart, so the model leaves that outcome open: it is \<open>undefined\<close> applied to
  the stack, some function of the input of which nothing is known, neither that it raises
  nor that it returns.
\<close>

definition minor :: "(nat \<Rightarrow> nat \<Rightarrow> real) \<Rightarrow> nat \<Rightarrow> nat \<Rightarrow> nat \<Rightarrow> nat \<Rightarrow> real" where
  "minor m r c = (\<lambda>i j. m (if i < r then i else Suc i) (if j < c then j else Suc j))"

fun det :: "nat \<Rightarrow> (nat \<Rightarrow> nat \<Rightarrow> real) \<Rightarrow> real" where
  "det 0 m = 1"
| "det (Suc n) m = sum_list (map (\<lambda>j. (- 1) ^ j * m 0 j * det n (minor m 0 j)) [0..<Suc n])"

definition block :: "real ndarray \<Rightarrow> nat list \<Rightarrow> nat \<Rightarrow> nat \<Rightarrow> real" where
  \<comment> \<open>the matrix at position \<open>pre\<close> of a stack of matrices\<close>
  "block a pre = (\<lambda>i j. elem a (pre @ [i, j]))"

definition np_linalg_det :: "real ndarray \<Rightarrow> error + real ndarray" where
  "np_linalg_det a =
     (let r = length (shape a)
      in if r < 2 then Inl (LinAlgError ''must be at least two-dimensional'')
         else if shape a ! (r - 2) \<noteq> shape a ! (r - 1)
           then Inl (LinAlgError ''Last 2 dimensions of the array must be square'')
         else Inr (of_fun (take (r - 2) (shape a)) (\<lambda>pre. det (shape a ! (r - 2)) (block a pre))))"

definition np_linalg_inv :: "real ndarray \<Rightarrow> error + real ndarray" where
  "np_linalg_inv a =
     (let r = length (shape a)
      in if r < 2 then Inl (LinAlgError ''must be at least two-dimensional'')
         else if shape a ! (r - 2) \<noteq> shape a ! (r - 1)
           then Inl (LinAlgError ''Last 2 dimensions of the array must be square'')
         else if list_ex (\<lambda>k. det (shape a ! (r - 2)) (block a (unravel (take (r - 2) (shape a)) k)) = 0)
                   [0..<prod_list (take (r - 2) (shape a))]
           then undefined a
         else Inr (of_fun (shape a)
                (\<lambda>ix. (- 1) ^ (ix ! (r - 2) + ix ! (r - 1))
                       * det (shape a ! (r - 2) - 1)
                           (minor (block a (take (r - 2) ix)) (ix ! (r - 1)) (ix ! (r - 2)))
                       / det (shape a ! (r - 2)) (block a (take (r - 2) ix)))))"


subsection \<open>Mesh, shape element and masks\<close>

text \<open>
  The mesh and the shape element are not part of \<open>reference_map.py\<close>; the class reads
  from the mesh its node coordinates (\<open>mesh.nodes\<close>, one row per node), its dimension
  and the entities of each topological dimension (\<open>mesh.topology.get_entities(d)\<close>, one
  row of 1-based vertex numbers per entity), and from the shape element its order and
  the values of its basis functions. They are parameters of the model: records whose
  fields are what the class reads.
\<close>

record mesh =
  nodes :: "real ndarray"
  dimension :: nat
  get_entities :: "nat \<Rightarrow> error + int ndarray"

record shape_element =
  order :: nat
  eval_basis :: "real ndarray \<Rightarrow> int \<Rightarrow> error + real ndarray"

record reference_map =
  mesh :: mesh
  shape_elem :: shape_element

text \<open>
  A mask is an array with an element type. The source compares \<open>mask.dtype\<close> with
  \<open>'int'\<close>, numpy's default integer type, and with \<open>bool\<close>; a dtype equals \<open>'int'\<close>
  only if it is that one type. The default integer type is \<open>int64\<close> on 64-bit Linux and
  macOS, which the model takes; whatever the platform, it is a single type and never
  one of the 8-bit and 16-bit integer types. A list given as mask has become an array by
  \<open>np.asarray\<close>: a list of Python integers has dtype \<open>'int'\<close>, a list of booleans
  \<open>bool\<close>.
\<close>

datatype int_dtype = Int8 | Int16 | Int32 | Int64 | UInt8 | UInt16 | UInt32 | UInt64

datatype other_dtype = Float16 | Float32 | Float64 | Complex64 | Complex128 | Object | Str

datatype dtype = D_bool | D_int int_dtype | D_other other_dtype

definition dtype_int :: dtype where
  \<comment> \<open>\<open>np.dtype('int')\<close>\<close>
  "dtype_int = D_int Int64"

datatype mask =
    IntMask int_dtype "int ndarray"
  | BoolMask "bool ndarray"
  | OtherMask other_dtype "nat list"

fun mask_dtype :: "mask \<Rightarrow> dtype" where
  "mask_dtype (IntMask t idx) = D_int t"
| "mask_dtype (BoolMask c) = D_bool"
| "mask_dtype (OtherMask t shp) = D_other t"

fun mask_ndim :: "mask \<Rightarrow> nat" where
  "mask_ndim (IntMask t idx) = length (shape idx)"
| "mask_ndim (BoolMask c) = length (shape c)"
| "mask_ndim (OtherMask t shp) = length shp"

fun mask_ints :: "mask \<Rightarrow> int ndarray" where
  "mask_ints (IntMask t idx) = idx"
| "mask_ints _ = \<lparr>shape = [0], flat = []\<rparr>"

fun mask_bools :: "mask \<Rightarrow> bool ndarray" where
  "mask_bools (BoolMask c) = c"
| "mask_bools _ = \<lparr>shape = [0], flat = []\<rparr>"

subsection \<open>\<open>ReferenceMap.eval\<close>\<close>

text \<open>
  When \<open>deriv\<close> is none of 0, 1, 2 no branch assigns \<open>maps\<close>, and \<open>return maps\<close> raises
  Python's UnboundLocalError.
\<close>

definition eval :: "reference_map \<Rightarrow> real ndarray \<Rightarrow> int \<Rightarrow> mask option \<Rightarrow> error + real ndarray" where
  "eval rm points deriv msk =
     (if nd_size points = 0 then np_getitem (nodes (mesh rm)) [Slice, NewAxis, Slice]
      else
        \<comment> \<open>\<open>points = np.atleast_2d(points)\<close>; \<open>dim = np.size(points, axis=0)\<close>\<close>
        bind_result (np_size (np_atleast_2d points) 0) (\<lambda>dim.
        bind_result (eval_basis (shape_elem rm) (np_atleast_2d points) deriv) (\<lambda>basis.
        bind_result (get_entities (mesh rm) dim) (\<lambda>vertices.
        \<comment> \<open>\<open>coords = self._mesh.nodes.take(vertices - 1, axis=0)\<close>\<close>
        bind_result (np_take (nodes (mesh rm)) (nd_map (\<lambda>v. v - 1) vertices) 0) (\<lambda>coords.
        bind_result
          (case msk of
             None \<Rightarrow> Inr coords
           | Some mk \<Rightarrow>
               if mask_ndim mk \<noteq> 1 then Inl AssertionError
               else if mask_dtype mk = dtype_int then np_take coords (mask_ints mk) 0
               else if mask_dtype mk = D_bool then np_compress (mask_bools mk) coords 0
               else Inl (TypeError ''Invalue mask type ({})''))
          (\<lambda>coords.
             if deriv = 0 then
               \<comment> \<open>\<open>(coords[:,:,None,:] * basis[None,:,:,None]).sum(axis=1)\<close>\<close>
               bind_result (np_getitem coords [Slice, Slice, NewAxis, Slice]) (\<lambda>c.
               bind_result (np_getitem basis [NewAxis, Slice, Slice, NewAxis]) (\<lambda>b.
               bind_result (np_multiply c b) (\<lambda>prod. np_sum prod 1)))
             else if deriv = 1 then
               \<comment> \<open>\<open>(coords[:,:,None,:,None] * basis[None,:,:,None,:]).sum(axis=1)\<close>\<close>
               bind_result (np_getitem coords [Slice, Slice, NewAxis, Slice, NewAxis]) (\<lambda>c.
               bind_result (np_getitem basis [NewAxis, Slice, Slice, NewAxis, Slice]) (\<lambda>b.
               bind_result (np_multiply c b) (\<lambda>prod. np_sum prod 1)))
             else if deriv = 2 then
               \<comment> \<open>\<open>(coords[:,:,None,:,None,None] * basis[None,:,:,None,:,:]).sum(axis=1)\<close>\<close>
               bind_result (np_getitem coords [Slice, Slice, NewAxis, Slice, NewAxis, NewAxis]) (\<lambda>c.
               bind_result (np_getitem basis [NewAxis, Slice, Slice, NewAxis, Slice, Slice]) (\<lambda>b.
               bind_result (np_multiply c b) (\<lambda>prod. np_sum prod 1)))
             else Inl (UnboundLocalError ''maps'')))))))"

subsection \<open>\<open>ReferenceMap.eval_inverse\<close>\<close>

text \<open>
  \<open>hosts - 1\<close> indexes the node array directly, as \<open>vertices - 1\<close> does in \<open>eval\<close>: the
  rows of \<open>hosts\<close> are the 1-based vertex numbers of the host element of each point.
  The \<open>assert\<close> is the one of an interpreter run without \<open>-O\<close>. After it \<open>dim\<close> is 1 or
  2; the last branch stands for the \<open>preimages\<close> that no branch would have assigned.
\<close>

definition eval_inverse :: "reference_map \<Rightarrow> real ndarray \<Rightarrow> int ndarray \<Rightarrow> error + real ndarray" where
  "eval_inverse rm points hosts =
     bind_result (np_size points 0) (\<lambda>dim.
       if order (shape_elem rm) \<noteq> 1
         then Inl (ValueError ''Inversion only available for linear reference maps!'')
       else if dimension (mesh rm) \<notin> {1, 2}
         then Inl (ValueError ''Inversion only available for 1D/2D case'')
       else if dim \<noteq> dimension (mesh rm) then Inl AssertionError
       else
         \<comment> \<open>\<open>coords = self._mesh.nodes.take(hosts-1, axis=0)\<close>; \<open>p0 = coords.take(0, axis=1)\<close>\<close>
         bind_result (np_take (nodes (mesh rm)) (nd_map (\<lambda>h. h - 1) hosts) 0) (\<lambda>coords.
         bind_result (np_take coords (scalar 0) 1) (\<lambda>p0.
           if dim = 1 then
             \<comment> \<open>\<open>P = coords[:,1] - coords[:,0]\<close>; \<open>P_inv = 1./P\<close>;
                 \<open>preimages = np.atleast_2d(P_inv * (points.T - p0))\<close>\<close>
             bind_result (np_getitem coords [Slice, Idx 1]) (\<lambda>c1.
             bind_result (np_getitem coords [Slice, Idx 0]) (\<lambda>c0.
             bind_result (np_subtract c1 c0) (\<lambda>P.
             bind_result (np_subtract (np_T points) p0) (\<lambda>d.
             bind_result (np_multiply (nd_map (\<lambda>x. 1 / x) P) d) (\<lambda>q.
               Inr (np_T (np_atleast_2d q)))))))
           else if dim = 2 then
             \<comment> \<open>\<open>p10 = coords[:,1] - coords[:,0]\<close>; \<open>p20 = coords[:,2] - coords[:,0]\<close>;
                 \<open>P = np.dstack([p10, p20])\<close>; \<open>P_inv = np.linalg.inv(P)\<close>;
                 \<open>preimages = (P_inv * (points.T - p0)[:,None,:]).sum(axis=-1)\<close>\<close>
             bind_result (np_getitem coords [Slice, Idx 1]) (\<lambda>c1.
             bind_result (np_getitem coords [Slice, Idx 0]) (\<lambda>c0.
             bind_result (np_subtract c1 c0) (\<lambda>p10.
             bind_result (np_getitem coords [Slice, Idx 2]) (\<lambda>c2.
             bind_result (np_getitem coords [Slice, Idx 0]) (\<lambda>c0'.
             bind_result (np_subtract c2 c0') (\<lambda>p20.
             bind_result (np_dstack p10 p20) (\<lambda>P.
             bind_result (np_linalg_inv P) (\<lambda>P_inv.
             bind_result (np_subtract (np_T points) p0) (\<lambda>d.
             bind_result (np_getitem d [Slice, NewAxis, Slice]) (\<lambda>d'.
             bind_result (np_multiply P_inv d') (\<lambda>prod.
             bind_result (np_sum prod (- 1)) (\<lambda>preimages.
               Inr (np_T preimages)))))))))))))
           else Inl (UnboundLocalError ''preimages''))))"

subsection \<open>\<open>ReferenceMap.jacobian_inverse\<close> and \<open>ReferenceMap.jacobian_determinant\<close>\<close>

definition trailing2 :: "nat list \<Rightarrow> nat list" where
  \<comment> \<open>\<open>shape[-2:]\<close>\<close>
  "trailing2 shp = drop (length shp - 2) shp"

definition jacobian_inverse :: "reference_map \<Rightarrow> real ndarray \<Rightarrow> mask option \<Rightarrow> error + real ndarray" where
  "jacobian_inverse rm points msk =
     bind_result (eval rm points 1 msk) (\<lambda>jacs.
       if trailing2 (shape jacs) \<in> {[1, 1], [2, 2], [3, 3]} then np_linalg_inv jacs
       else if shape jacs = [] then Inl IndexError \<comment> \<open>\<open>jacs.shape[-1]\<close> of an array without axes\<close>
       else if last (shape jacs) = 1 then Inr (nd_map (\<lambda>x. 1 / x) jacs)
       else Inl (NotImplementedError ''Jacobian inverse not available yet!''))"

definition jacobian_determinant :: "reference_map \<Rightarrow> real ndarray \<Rightarrow> mask option \<Rightarrow> error + real ndarray" where
  "jacobian_determinant rm points msk =
     bind_result (eval rm points 1 msk) (\<lambda>jacs.
       if trailing2 (shape jacs) \<in> {[1, 1], [2, 2], [3, 3]} then np_linalg_det jacs
       else if trailing2 (shape jacs) = [2, 1] then
         \<comment> \<open>\<open>np.sqrt(np.power(jacs[...,0], 2).sum(axis=2))\<close>\<close>
         bind_result (np_getitem jacs [Ellipsis, Idx 0]) (\<lambda>col.
         bind_result (np_sum (nd_map (\<lambda>x. x ^ 2) col) 2) (\<lambda>s.
           Inr (nd_map sqrt s)))
       else if trailing2 (shape jacs) = [3, 2] then
         \<comment> \<open>\<open>tmp0\<close>, \<open>tmp1\<close>, \<open>tmp2\<close>: the squares of \<open>d0\<close>, \<open>d1\<close>, \<open>d2\<close>, each a
             difference of two products of entries of the Jacobians, read in the order
             of the source; then \<open>np.sqrt(tmp0 + tmp1 + tmp2)\<close>\<close>
         bind_result (np_getitem jacs [Ellipsis, Idx 1, Idx 0]) (\<lambda>j10.
         bind_result (np_getitem jacs [Ellipsis, Idx 2, Idx 1]) (\<lambda>j21.
         bind_result (np_multiply j10 j21) (\<lambda>a0.
         bind_result (np_getitem jacs [Ellipsis, Idx 2, Idx 0]) (\<lambda>j20.
         bind_result (np_getitem jacs [Ellipsis, Idx 1, Idx 1]) (\<lambda>j11.
         bind_result (np_multiply j20 j11) (\<lambda>b0.
         bind_result (np_subtract a0 b0) (\<lambda>d0.
         bind_result (np_getitem jacs [Ellipsis, Idx 2, Idx 0]) (\<lambda>k20.
         bind_result (np_getitem jacs [Ellipsis, Idx 0, Idx 1]) (\<lambda>k01.
         bind_result (np_multiply k20 k01) (\<lambda>a1.
         bind_result (np_getitem jacs [Ellipsis, Idx 0, Idx 0]) (\<lambda>k00.
         bind_result (np_getitem jacs [Ellipsis, Idx 2, Idx 1]) (\<lambda>k21.
         bind_result (np_multiply k00 k21) (\<lambda>b1.
         bind_result (np_subtract a1 b1) (\<lambda>d1.
         bind_result (np_getitem jacs [Ellipsis, Idx 0, Idx 0]) (\<lambda>l00.
         bind_result (np_getitem jacs [Ellipsis, Idx 1, Idx 1]) (\<lambda>l11.
         bind_result (np_multiply l00 l11) (\<lambda>a2.
         bind_result (np_getitem jacs [Ellipsis, Idx 1, Idx 0]) (\<lambda>l10.
         bind_result (np_getitem jacs [Ellipsis, Idx 0, Idx 1]) (\<lambda>l01.
         bind_result (np_multiply l10 l01) (\<lambda>b2.
         bind_result (np_subtract a2 b2) (\<lambda>d2.
         bind_result (np_add (nd_map (\<lambda>x. x ^ 2) d0) (nd_map (\<lambda>x. x ^ 2) d1)) (\<lambda>s01.
         bind_result (np_add s01 (nd_map (\<lambda>x. x ^ 2) d2)) (\<lambda>s.
           Inr (nd_map sqrt s))))))))))))))))))))))))
       else Inl (NotImplementedError ''Unsupported shape of jacobians! ({})''))"

subsection \<open>The linear shape element\<close>

text \<open>
  Modelled from the spec: the class \<open>P1\<close> of \<open>pysofe/elements/simple/lagrange.py\<close>, which
  \<open>ReferenceMap.__init__\<close> instantiates, is not among the sources. The spec calls it the
  order-1, linear shape element of straight-sided elements, whose reference maps are
  affine and interpolate linearly between the vertices; its basis evaluation returns, for
  B basis functions and P points, an array of shape B x P (order 0), B x P x D (order 1)
  or B x P x D x D (order 2). On points given as the columns of a d x P array this is the
  nodal basis of the d-simplex: the first function is 1 minus the sum of the coordinates,
  the others are the coordinates. The spec lists the orders 0, 1 and 2 for the basis
  evaluation and wants every other order rejected with an invalid-argument error; the
  model raises Python's exception for an invalid argument, the ValueError.
\<close>

definition P1_eval_basis :: "real ndarray \<Rightarrow> int \<Rightarrow> error + real ndarray" where
  "P1_eval_basis points deriv =
     (case shape points of
        [d, nP] \<Rightarrow>
          if deriv = 0 then
            Inr (of_fun [Suc d, nP]
              (\<lambda>ix. if ix ! 0 = 0 then 1 - sum_list (map (\<lambda>i. elem points [i, ix ! 1]) [0..<d])
                     else elem points [ix ! 0 - 1, ix ! 1]))
          else if deriv = 1 then
            Inr (of_fun [Suc d, nP, d]
              (\<lambda>ix. if ix ! 0 = 0 then - 1 else if ix ! 0 - 1 = ix ! 2 then 1 else 0))
          else if deriv = 2 then Inr (of_fun [Suc d, nP, d, d] (\<lambda>ix. 0))
          else Inl (ValueError ''Invalid derivation order'')
      | _ \<Rightarrow> Inl (ValueError ''points must be two-dimensional''))"

definition P1 :: "nat \<Rightarrow> shape_element" where
  "P1 d = \<lparr>order = 1, eval_basis = P1_eval_basis\<rparr>"

definition ReferenceMap :: "mesh \<Rightarrow> reference_map" where
  \<comment> \<open>\<open>ReferenceMap.__init__\<close>\<close>
  "ReferenceMap m = \<lparr>mesh = m, shape_elem = P1 (dimension m)\<rparr>"

subsection \<open>Example meshes\<close>

text \<open>
  The mesh of the interval from 0 to 2 with the nodes 0, 1, 2 and the two cells
  \<open>[1, 2]\<close> and \<open>[2, 3]\<close>; its entities of dimension 0 are its nodes.
\<close>

definition mesh1d :: mesh where
  "mesh1d = \<lparr>nodes = \<lparr>shape = [3, 1], flat = [0, 1, 2]\<rparr>, dimension = 1,
     get_entities = (\<lambda>d. if d = 1 then Inr \<lparr>shape = [2, 2], flat = [1, 2, 2, 3]\<rparr>
                         else Inr \<lparr>shape = [3, 1], flat = [1, 2, 3]\<rparr>)\<rparr>"

text \<open>The interval from 0 to 3 with three cells.\<close>

definition mesh1d3 :: mesh where
  "mesh1d3 = \<lparr>nodes = \<lparr>shape = [4, 1], flat = [0, 1, 2, 3]\<rparr>, dimension = 1,
     get_entities = (\<lambda>d. if d = 1 then Inr \<lparr>shape = [3, 2], flat = [1, 2, 2, 3, 3, 4]\<rparr>
                         else Inr \<lparr>shape = [4, 1], flat = [1, 2, 3, 4]\<rparr>)\<rparr>"

text \<open>
  The rectangle with the corners (0, 0), (2, 0), (0, 3), (2, 3), cut into two triangles;
  its entities of dimension 1 are the five edges.
\<close>

definition mesh2d :: mesh where
  "mesh2d = \<lparr>nodes = \<lparr>shape = [4, 2], flat = [0, 0, 2, 0, 0, 3, 2, 3]\<rparr>, dimension = 2,
     get_entities = (\<lambda>d. if d = 2 then Inr \<lparr>shape = [2, 3], flat = [1, 2, 3, 2, 4, 3]\<rparr>
                         else if d = 1 then Inr \<lparr>shape = [5, 2], flat = [1, 2, 1, 3, 2, 3, 2, 4, 3, 4]\<rparr>
                         else Inr \<lparr>shape = [4, 1], flat = [1, 2, 3, 4]\<rparr>)\<rparr>"

text \<open>
  Entities of lower dimension than the space around them: a segment in the plane, a
  segment in space and a triangle in space.
\<close>

definition segment2d :: mesh where
  "segment2d = \<lparr>nodes = \<lparr>shape = [2, 2], flat = [0, 0, 3, 4]\<rparr>, dimension = 2,
     get_entities = (\<lambda>d. if d = 1 then Inr \<lparr>shape = [1, 2], flat = [1, 2]\<rparr>
                         else Inr \<lparr>shape = [2, 1], flat = [1, 2]\<rparr>)\<rparr>"

definition segment3d :: mesh where
  "segment3d = \<lparr>nodes = \<lparr>shape = [2, 3], flat = [0, 0, 0, 1, 2, 2]\<rparr>, dimension = 3,
     get_entities = (\<lambda>d. if d = 1 then Inr \<lparr>shape = [1, 2], flat = [1, 2]\<rparr>
                         else Inr \<lparr>shape = [2, 1], flat = [1, 2]\<rparr>)\<rparr>"

definition triangle3d :: mesh where
  "triangle3d = \<lparr>nodes = \<lparr>shape = [3, 3], flat = [0, 0, 0, 1, 0, 0, 0, 1, 0]\<rparr>, dimension = 3,
     get_entities = (\<lambda>d. if d = 2 then Inr \<lparr>shape = [1, 3], flat = [1, 2, 3]\<rparr>
                         else if d = 1 then Inr \<lparr>shape = [3, 2], flat = [1, 2, 1, 3, 2, 3]\<rparr>
                         else Inr \<lparr>shape = [3, 1], flat = [1, 2, 3]\<rparr>)\<rparr>"

section \<open>Properties of the arrays\<close>

lemma ravel_less: "in_bounds shp ix \<Longrightarrow> ravel shp ix < prod_list shp"
proof (induction shp ix rule: in_bounds.induct)
  case (2 n ns i ix)
  then have "i < n" and r: "ravel ns ix < prod_list ns" by simp_all
  then have "i * prod_list ns + ravel ns ix < Suc i * prod_list ns" by simp
  also have "\<dots> \<le> n * prod_list ns" using \<open>i < n\<close> by (simp add: Suc_leI mult_le_mono1 del: mult_Suc)
  finally show ?case by simp
qed simp_all

lemma unravel_ravel: "in_bounds shp ix \<Longrightarrow> unravel shp (ravel shp ix) = ix"
proof (induction shp ix rule: in_bounds.induct)
  case (2 n ns i ix)
  then have r: "ravel ns ix < prod_list ns" by (simp add: ravel_less)
  with 2 show ?case by simp
qed simp_all

lemma in_bounds_unravel: "k < prod_list shp \<Longrightarrow> in_bounds shp (unravel shp k)"
proof (induction shp arbitrary: k)
  case (Cons n ns)
  then have pos: "0 < prod_list ns" by (cases "prod_list ns = 0") simp_all
  have "k div prod_list ns < n" using Cons.prems pos
    by (simp add: less_mult_imp_div_less mult.commute)
  moreover have "k mod prod_list ns < prod_list ns" using pos by simp
  ultimately show ?case using Cons.IH by simp
qed simp

lemma ravel_unravel: "k < prod_list shp \<Longrightarrow> ravel shp (unravel shp k) = k"
proof (induction shp arbitrary: k)
  case (Cons n ns)
  then have pos: "0 < prod_list ns" by (cases "prod_list ns = 0") simp_all
  then have "k mod prod_list ns < prod_list ns" by simp
  with Cons.IH show ?case by simp
qed simp

lemma shape_of_fun [simp]: "shape (of_fun shp f) = shp"
  by (simp add: of_fun_def)

lemma wf_of_fun [simp]: "wf_nd (of_fun shp f)"
  by (simp add: of_fun_def wf_nd_def)

lemma elem_of_fun [simp]: "in_bounds shp ix \<Longrightarrow> elem (of_fun shp f) ix = f ix"
  by (simp add: elem_def of_fun_def ravel_less unravel_ravel)

lemma of_fun_cong: "(\<And>ix. in_bounds shp ix \<Longrightarrow> f ix = g ix) \<Longrightarrow> of_fun shp f = of_fun shp g"
  by (simp add: of_fun_def in_bounds_unravel)

lemma of_fun_elem: "wf_nd a \<Longrightarrow> of_fun (shape a) (elem a) = a"
proof -
  assume w: "wf_nd a"
  have "map (\<lambda>k. flat a ! ravel (shape a) (unravel (shape a) k)) [0..<prod_list (shape a)]
      = map (\<lambda>k. flat a ! k) [0..<prod_list (shape a)]"
    by (rule map_cong) (simp_all add: ravel_unravel)
  also have "\<dots> = flat a" using w map_nth [of "flat a"] by (simp add: wf_nd_def)
  finally show ?thesis by (simp add: of_fun_def elem_def)
qed

lemma nd_eqI:
  assumes "wf_nd a" "wf_nd b" "shape a = shape b" "\<And>ix. in_bounds (shape a) ix \<Longrightarrow> elem a ix = elem b ix"
  shows "a = b"
proof -
  have "of_fun (shape a) (elem a) = of_fun (shape a) (elem b)"
    using assms(4) by (rule of_fun_cong)
  then have "of_fun (shape a) (elem a) = of_fun (shape b) (elem b)" using assms(3) by simp
  then show ?thesis using assms(1,2) by (simp add: of_fun_elem)
qed

lemma bind_result_simps [simp]:
  "bind_result (Inr x) f = f x" "bind_result (Inl e) f = Inl e"
  by (simp_all add: bind_result_def)

lemma in_bounds_length: "in_bounds shp ix \<Longrightarrow> length ix = length shp"
  by (induction shp ix rule: in_bounds.induct) simp_all

lemma in_bounds3: "in_bounds [a, b, c] ix \<longleftrightarrow> (\<exists>i j k. ix = [i, j, k] \<and> i < a \<and> j < b \<and> k < c)"
  apply (cases ix; simp)
  subgoal for i ix1 apply (cases ix1; simp)
    subgoal for j ix2 apply (cases ix2; simp)
      subgoal for k ix3 by (cases ix3; auto) done done done

lemma getitem_nodes:
  assumes "wf_nd a" "shape a = [nN, D]"
  shows "np_getitem a [Slice, NewAxis, Slice] = Inr \<lparr>shape = [nN, 1, D], flat = flat a\<rparr>"
proof -
  let ?b = "\<lparr>shape = [nN, 1, D], flat = flat a\<rparr>"
  have "of_fun [nN, 1, D] (\<lambda>ix. elem a (index_source [Slice, NewAxis, Slice] [nN, D] ix)) = ?b"
  proof (rule nd_eqI)
    show "wf_nd ?b" using assms by (simp add: wf_nd_def)
    fix ix assume "in_bounds (shape (of_fun [nN, 1, D] (\<lambda>ix. elem a (index_source [Slice, NewAxis, Slice] [nN, D] ix)))) ix"
    then obtain i j k where "ix = [i, j, k]" "i < nN" "j < 1" "k < D" by (auto simp: in_bounds3)
    then have ix: "ix = [i, 0, k]" "in_bounds [nN, 1, D] ix" by simp_all
    have "elem ?b ix = elem a [i, k]" using assms ix by (simp add: elem_def)
    moreover have "elem (of_fun [nN, 1, D] (\<lambda>ix. elem a (index_source [Slice, NewAxis, Slice] [nN, D] ix))) ix = elem a [i, k]"
      using ix(2) by (simp add: ix(1))
    ultimately show "elem (of_fun [nN, 1, D] (\<lambda>ix. elem a (index_source [Slice, NewAxis, Slice] [nN, D] ix))) ix = elem ?b ix"
      by simp
  qed simp_all
  then show ?thesis using assms by (simp add: np_getitem_def)
qed



section \<open>Properties of the reference maps\<close>

subsection \<open>Empty point arrays\<close>

text \<open>
  C10: when the point array is empty (its size is 0), \<open>eval\<close> returns the node
  coordinates of the mesh with a point axis of length 1 inserted, of shape
  nNodes x 1 x D, whatever the derivation order and the mask are: neither the mask nor
  the derivation order is looked at.
\<close>

theorem eval_empty_points:
  assumes "nd_size points = 0" and "wf_nd (nodes (mesh rm))" and "shape (nodes (mesh rm)) = [nN, D]"
  shows "eval rm points deriv msk = Inr \<lparr>shape = [nN, 1, D], flat = flat (nodes (mesh rm))\<rparr>"
  using assms by (simp add: eval_def getitem_nodes)

theorem eval_empty_points_witness:
  "nd_size \<lparr>shape = [0], flat = []\<rparr> = 0 \<and> wf_nd (nodes (mesh (ReferenceMap mesh1d)))
   \<and> shape (nodes (mesh (ReferenceMap mesh1d))) = [3, 1]
   \<and> eval (ReferenceMap mesh1d) \<lparr>shape = [0], flat = []\<rparr> 7 (Some (OtherMask Float64 [2, 2]))
       = Inr \<lparr>shape = [3, 1, 1], flat = [0, 1, 2]\<rparr>"
  using eval_empty_points [of "\<lparr>shape = [0], flat = []\<rparr>" "ReferenceMap mesh1d" 3 1 7 "Some (OtherMask Float64 [2, 2])"]
  by (simp add: nd_size_def wf_nd_def ReferenceMap_def mesh1d_def)

subsection \<open>Elementwise operations, indexing and broadcasting\<close>

lemma elem_nd_map: "wf_nd a \<Longrightarrow> in_bounds (shape a) ix \<Longrightarrow> elem (nd_map f a) ix = f (elem a ix)"
  using ravel_less [of "shape a" ix] by (simp add: elem_def nd_map_def wf_nd_def)

lemma shape_nd_map [simp]: "shape (nd_map f a) = shape a"
  by (simp add: nd_map_def)

lemma wf_nd_map [simp]: "wf_nd (nd_map f a) = wf_nd a"
  by (simp add: nd_map_def wf_nd_def)

lemma flat_nd_map [simp]: "flat (nd_map f a) = map f (flat a)"
  by (simp add: nd_map_def)

lemma elem_mem_flat: "wf_nd a \<Longrightarrow> in_bounds (shape a) ix \<Longrightarrow> elem a ix \<in> set (flat a)"
  using ravel_less [of "shape a" ix] by (simp add: elem_def wf_nd_def)

lemma bdim_simps [simp]:
  "bdim n n = Some n" "bdim 1 n = Some n" "bdim n 1 = Some n"
  "bdim (Suc 0) n = Some n" "bdim n (Suc 0) = Some n"
  by (auto simp: bdim_def)

lemma bindex_simps [simp]: "i < n \<Longrightarrow> bindex n i = i" "bindex (Suc 0) i = 0" "bindex 1 i = 0"
  by (auto simp: bindex_def)

lemma rank_atleast_2d: "2 \<le> length (shape (np_atleast_2d a))"
  by (auto simp: np_atleast_2d_def split: list.splits)

lemma np_size_atleast_2d: "np_size (np_atleast_2d a) 0 = Inr (hd (shape (np_atleast_2d a)))"
  using rank_atleast_2d [of a] by (cases "shape (np_atleast_2d a)") (simp_all add: np_size_def)

lemma sum_list_cong_upt:
  "(\<And>j. j < n \<Longrightarrow> f j = g j) \<Longrightarrow> sum_list (map f [0..<n]) = sum_list (map g [0..<n])"
  by (rule arg_cong [where f = sum_list], rule map_cong) simp_all

text \<open>Gathering rows of a two-dimensional array by a two-dimensional index array.\<close>

lemma take_rows:
  assumes "shape a = [n, D]" "shape idx = [nE, nB]" "\<forall>i\<in>set (flat idx). index_ok n i"
  shows "\<exists>c. np_take a idx 0 = Inr c \<and> shape c = [nE, nB, D] \<and> wf_nd c
           \<and> (\<forall>e<nE. \<forall>b<nB. \<forall>d<D. elem c [e, b, d] = elem a [wrap_index n (elem idx [e, b]), d])"
  using assms by (simp add: np_take_def list_ex_iff)

text \<open>
  The coordinates of the vertices of all entities: the stored vertex numbers are 1-based,
  the node at row \<open>v - 1\<close> belongs to the vertex number \<open>v\<close>.
\<close>

lemma gather_coords:
  assumes "shape nds = [nN, D]" "wf_nd vertices" "shape vertices = [nE, nB]"
    and "set (flat vertices) \<subseteq> {1..int nN}"
  shows "\<exists>c. np_take nds (nd_map (\<lambda>v. v - 1) vertices) 0 = Inr c \<and> shape c = [nE, nB, D] \<and> wf_nd c
           \<and> (\<forall>e<nE. \<forall>b<nB. \<forall>d<D. elem c [e, b, d] = elem nds [nat (elem vertices [e, b] - 1), d])"
proof -
  let ?idx = "nd_map (\<lambda>v. v - 1) vertices"
  have ok: "\<forall>i\<in>set (flat ?idx). index_ok nN i"
    using assms(4) by (auto simp: index_ok_def)
  from take_rows [OF assms(1) _ ok, of nE nB] assms(3)
  obtain c where c: "np_take nds ?idx 0 = Inr c" "shape c = [nE, nB, D]" "wf_nd c"
    "\<forall>e<nE. \<forall>b<nB. \<forall>d<D. elem c [e, b, d] = elem nds [wrap_index nN (elem ?idx [e, b]), d]"
    by auto
  have "elem c [e, b, d] = elem nds [nat (elem vertices [e, b] - 1), d]"
    if "e < nE" "b < nB" "d < D" for e b d
  proof -
    have "elem vertices [e, b] \<in> set (flat vertices)"
      using that assms by (intro elem_mem_flat) simp_all
    then have "1 \<le> elem vertices [e, b]" using assms(4) by auto
    moreover have "elem ?idx [e, b] = elem vertices [e, b] - 1"
      using that assms by (simp add: elem_nd_map)
    ultimately show ?thesis using c(4) that by (simp add: wrap_index_def)
  qed
  with c(1-3) show ?thesis by blast
qed

subsection \<open>Evaluation of the maps\<close>

text \<open>The contraction of \<open>eval\<close> for \<open>deriv = 0\<close>: the product is summed over axis 1.\<close>

lemma contract0:
  assumes "shape coords = [nE, nB, D]" "shape basis = [nB, nP]"
  shows "\<exists>r. bind_result (np_getitem coords [Slice, Slice, NewAxis, Slice]) (\<lambda>c.
               bind_result (np_getitem basis [NewAxis, Slice, Slice, NewAxis]) (\<lambda>b.
               bind_result (np_multiply c b) (\<lambda>prod. np_sum prod 1))) = Inr r
           \<and> shape r = [nE, nP, D] \<and> wf_nd r
           \<and> (\<forall>e<nE. \<forall>p<nP. \<forall>d<D. elem r [e, p, d]
                 = sum_list (map (\<lambda>b. elem coords [e, b, d] * elem basis [b, p]) [0..<nB]))"
  using assms
  apply (simp add: np_getitem_def np_multiply_def broadcast2_def broadcast_shapes_def np_sum_def
      index_ok_def wrap_index_def)
  apply (intro allI impI sum_list_cong_upt)
  apply (simp add: bsource_def)
  done

lemma eval0_elements:
  assumes ne: "nd_size points \<noteq> 0"
    and basis: "eval_basis (shape_elem rm) (np_atleast_2d points) 0 = Inr basis" "shape basis = [nB, nP]"
    and ents: "get_entities (mesh rm) (hd (shape (np_atleast_2d points))) = Inr vertices"
      "wf_nd vertices" "shape vertices = [nE, nB]"
    and nodes: "shape (nodes (mesh rm)) = [nN, D]"
    and valid: "set (flat vertices) \<subseteq> {1..int nN}"
  shows "\<exists>r. eval rm points 0 None = Inr r \<and> shape r = [nE, nP, D] \<and> wf_nd r
           \<and> (\<forall>e<nE. \<forall>p<nP. \<forall>d<D. elem r [e, p, d]
                 = sum_list (map (\<lambda>b. elem (nodes (mesh rm)) [nat (elem vertices [e, b] - 1), d]
                                      * elem basis [b, p]) [0..<nB]))"
proof -
  from gather_coords [OF nodes ents(2,3) valid]
  obtain c where c: "np_take (nodes (mesh rm)) (nd_map (\<lambda>v. v - 1) vertices) 0 = Inr c"
    "shape c = [nE, nB, D]"
    "\<forall>e<nE. \<forall>b<nB. \<forall>d<D. elem c [e, b, d] = elem (nodes (mesh rm)) [nat (elem vertices [e, b] - 1), d]"
    by blast
  from contract0 [OF c(2) basis(2)]
  obtain r where r: "bind_result (np_getitem c [Slice, Slice, NewAxis, Slice]) (\<lambda>c.
               bind_result (np_getitem basis [NewAxis, Slice, Slice, NewAxis]) (\<lambda>b.
               bind_result (np_multiply c b) (\<lambda>prod. np_sum prod 1))) = Inr r"
     "shape r = [nE, nP, D]" "wf_nd r"
     "\<forall>e<nE. \<forall>p<nP. \<forall>d<D. elem r [e, p, d]
                 = sum_list (map (\<lambda>b. elem c [e, b, d] * elem basis [b, p]) [0..<nB])"
    by blast
  have "eval rm points 0 None = Inr r"
    using ne basis(1) ents(1) c(1) r(1) by (simp add: eval_def np_size_atleast_2d)
  moreover have "elem r [e, p, d]
      = sum_list (map (\<lambda>b. elem (nodes (mesh rm)) [nat (elem vertices [e, b] - 1), d] * elem basis [b, p])
                   [0..<nB])"
    if "e < nE" "p < nP" "d < D" for e p d
    using r(4) c(3) that by (simp cong: sum_list_cong_upt)
  ultimately show ?thesis using r(2,3) by blast
qed

text \<open>
  C1: for a non-empty point array, \<open>eval(points, deriv=0, mask=None)\<close> is the sum over the
  basis functions of the vertex coordinates of each entity (the node at row \<open>v - 1\<close> for
  the stored vertex number \<open>v\<close>) times the basis values, for every entity and every
  point; the result has the shape nEntities x nPoints x D. On the mesh with the nodes 0,
  1, 2 and the cells \<open>[1, 2]\<close>, \<open>[2, 3]\<close> the local point 0.5 is mapped to 0.5 in the
  first and to 1.5 in the second cell.
\<close>

theorem eval_deriv0:
  assumes "nd_size points \<noteq> 0"
    and "eval_basis (shape_elem rm) (np_atleast_2d points) 0 = Inr basis" and "shape basis = [nB, nP]"
    and "get_entities (mesh rm) (hd (shape (np_atleast_2d points))) = Inr vertices"
    and "wf_nd vertices" and "shape vertices = [nE, nB]"
    and "shape (nodes (mesh rm)) = [nN, D]"
    and "set (flat vertices) \<subseteq> {1..int nN}"
  shows "(\<exists>r. eval rm points 0 None = Inr r \<and> shape r = [nE, nP, D]
           \<and> (\<forall>e<nE. \<forall>p<nP. \<forall>d<D. elem r [e, p, d]
                 = sum_list (map (\<lambda>b. elem (nodes (mesh rm)) [nat (elem vertices [e, b] - 1), d]
                                      * elem basis [b, p]) [0..<nB])))
       \<and> eval (ReferenceMap mesh1d) \<lparr>shape = [1, 1], flat = [1 / 2]\<rparr> 0 None
           = Inr \<lparr>shape = [2, 1, 1], flat = [1 / 2, 3 / 2]\<rparr>"
proof -
  have "eval (ReferenceMap mesh1d) \<lparr>shape = [1, 1], flat = [1 / 2]\<rparr> 0 None
           = Inr \<lparr>shape = [2, 1, 1], flat = [1 / 2, 3 / 2]\<rparr>"
    by code_simp
  moreover from eval0_elements [OF assms]
  have "\<exists>r. eval rm points 0 None = Inr r \<and> shape r = [nE, nP, D]
           \<and> (\<forall>e<nE. \<forall>p<nP. \<forall>d<D. elem r [e, p, d]
                 = sum_list (map (\<lambda>b. elem (nodes (mesh rm)) [nat (elem vertices [e, b] - 1), d]
                                      * elem basis [b, p]) [0..<nB]))"
    by blast
  ultimately show ?thesis by blast
qed

theorem eval_deriv0_witness:
  "nd_size \<lparr>shape = [1, 1], flat = [1 / 2 :: real]\<rparr> \<noteq> 0
   \<and> eval_basis (shape_elem (ReferenceMap mesh1d)) (np_atleast_2d \<lparr>shape = [1, 1], flat = [1 / 2]\<rparr>) 0
       = Inr \<lparr>shape = [2, 1], flat = [1 / 2, 1 / 2]\<rparr>
   \<and> get_entities (mesh (ReferenceMap mesh1d)) (hd (shape (np_atleast_2d \<lparr>shape = [1, 1], flat = [1 / 2 :: real]\<rparr>)))
       = Inr \<lparr>shape = [2, 2], flat = [1, 2, 2, 3]\<rparr>
   \<and> wf_nd \<lparr>shape = [2, 2], flat = [1, 2, 2, 3 :: int]\<rparr>
   \<and> shape (nodes (mesh (ReferenceMap mesh1d))) = [3, 1]
   \<and> set (flat \<lparr>shape = [2, 2], flat = [1, 2, 2, 3 :: int]\<rparr>) \<subseteq> {1..int 3}
   \<and> (\<exists>r. eval (ReferenceMap mesh1d) \<lparr>shape = [1, 1], flat = [1 / 2]\<rparr> 0 None = Inr r \<and> shape r = [2, 1, 1]
        \<and> (\<forall>e<2. \<forall>p<1. \<forall>d<1. elem r [e, p, d]
              = sum_list (map (\<lambda>b. elem (nodes (mesh (ReferenceMap mesh1d)))
                                       [nat (elem \<lparr>shape = [2, 2], flat = [1, 2, 2, 3]\<rparr> [e, b] - 1), d]
                                   * elem \<lparr>shape = [2, 1], flat = [1 / 2, 1 / 2]\<rparr> [b, p]) [0..<2])))"
proof -
  have h1: "nd_size \<lparr>shape = [1, 1], flat = [1 / 2 :: real]\<rparr> \<noteq> 0"
    by code_simp
  have h2: "eval_basis (shape_elem (ReferenceMap mesh1d)) (np_atleast_2d \<lparr>shape = [1, 1], flat = [1 / 2]\<rparr>) 0
       = Inr \<lparr>shape = [2, 1], flat = [1 / 2, 1 / 2]\<rparr>"
    by code_simp
  have h3: "get_entities (mesh (ReferenceMap mesh1d)) (hd (shape (np_atleast_2d \<lparr>shape = [1, 1], flat = [1 / 2 :: real]\<rparr>)))
       = Inr \<lparr>shape = [2, 2], flat = [1, 2, 2, 3]\<rparr>"
    by code_simp
  have h4: "wf_nd \<lparr>shape = [2, 2], flat = [1, 2, 2, 3 :: int]\<rparr>"
    by code_simp
  have h5: "shape (nodes (mesh (ReferenceMap mesh1d))) = [3, 1]"
    by code_simp
  have h6: "set (flat \<lparr>shape = [2, 2], flat = [1, 2, 2, 3 :: int]\<rparr>) \<subseteq> {1..int 3}"
    by simp
  have s2: "shape \<lparr>shape = [2, 1], flat = [1 / 2, 1 / 2 :: real]\<rparr> = [2, 1]"
    and s3: "shape \<lparr>shape = [2, 2], flat = [1, 2, 2, 3 :: int]\<rparr> = [2, 2]"
    by simp_all
  note r = eval_deriv0 [OF h1 h2 s2 h3 h4 s3 h5 h6, THEN conjunct1]
  show ?thesis
    by (intro conjI) (rule h1 h2 h3 h4 h5 h6 r)+
qed

subsection \<open>Masks\<close>

text \<open>
  What \<open>eval\<close> does with a one-dimensional mask once the coordinates of the entities
  are gathered: a mask of dtype \<open>'int'\<close> is used as an index array, and a mask whose dtype
  is neither \<open>'int'\<close> nor \<open>bool\<close> ends the call with a TypeError.
\<close>

lemma eval_mask_dtype:
  assumes "nd_size points \<noteq> 0"
    and "eval_basis (shape_elem rm) (np_atleast_2d points) deriv = Inr basis"
    and "get_entities (mesh rm) (hd (shape (np_atleast_2d points))) = Inr vertices"
    and "np_take (nodes (mesh rm)) (nd_map (\<lambda>v. v - 1) vertices) 0 = Inr coords"
    and "mask_ndim mk = 1"
  shows "mask_dtype mk = dtype_int \<Longrightarrow>
           eval rm points deriv (Some mk) = eval rm points deriv (Some (IntMask Int64 (mask_ints mk)))"
    and "mask_dtype mk \<noteq> dtype_int \<Longrightarrow> mask_dtype mk \<noteq> D_bool \<Longrightarrow>
           eval rm points deriv (Some mk) = Inl (TypeError ''Invalue mask type ({})'')"
  using assms by (cases mk; simp add: eval_def np_size_atleast_2d dtype_int_def)+

text \<open>
  C6: in \<open>eval\<close> with a non-empty point array and a one-dimensional mask, an integer mask
  restricts the entities by index selection, a boolean mask by inclusion, and every other
  element type raises a TypeError. The source tests \<open>mask.dtype == 'int'\<close>, which holds
  for numpy's default integer type only: the mask \<open>np.array([1], dtype=np.int16)\<close> is an
  integer mask, and it is answered with the TypeError, where the same indices with the
  default integer type select the second cell.
\<close>

theorem eval_int16_mask:
  "eval (ReferenceMap mesh1d) \<lparr>shape = [1, 1], flat = [1 / 2]\<rparr> 0
       (Some (IntMask Int16 \<lparr>shape = [1], flat = [1]\<rparr>))
     = Inl (TypeError ''Invalue mask type ({})'')
   \<and> eval (ReferenceMap mesh1d) \<lparr>shape = [1, 1], flat = [1 / 2]\<rparr> 0
       (Some (IntMask Int64 \<lparr>shape = [1], flat = [1]\<rparr>))
     = Inr \<lparr>shape = [1, 1, 1], flat = [3 / 2]\<rparr>"
  by code_simp

text \<open>
  A boolean mask and the mask of numpy's default integer type that lists the positions of
  its \<open>True\<close> entries are interchangeable, for every mesh, point array and derivation
  order.
\<close>

lemma default_int_mask_as_bool:
  assumes "length (shape c) = 1"
  shows "eval rm points deriv (Some (IntMask Int64 (nonzero c))) = eval rm points deriv (Some (BoolMask c))"
  using assms by (simp add: eval_def dtype_int_def np_compress_def nonzero_def Let_def)

text \<open>
  C7: an integer mask and a boolean mask that select the same entities in the same
  order give the same result of \<open>eval\<close>. On the interval from 0 to 3 with three cells
  and the midpoint of the reference cell, the boolean mask \<open>[True, False, True]\<close> gives
  the midpoints 1/2 and 5/2 of the first and the third cell, and \<open>[False, True, True]\<close>
  those of the second and the third. The integer mask \<open>[0, 2]\<close> selects the first and
  the third cell as well: with numpy's default integer type it gives the same array, but
  as \<open>np.array([0, 2], dtype=np.int16)\<close> it fails the test \<open>mask.dtype == 'int'\<close> of
  the source and ends in the TypeError, so the two results differ.
\<close>

theorem mask_int16_vs_bool:
  "eval (ReferenceMap mesh1d3) \<lparr>shape = [1, 1], flat = [1 / 2]\<rparr> 0
       (Some (BoolMask \<lparr>shape = [3], flat = [True, False, True]\<rparr>))
     = Inr \<lparr>shape = [2, 1, 1], flat = [1 / 2, 5 / 2]\<rparr>
   \<and> eval (ReferenceMap mesh1d3) \<lparr>shape = [1, 1], flat = [1 / 2]\<rparr> 0
       (Some (IntMask Int16 \<lparr>shape = [2], flat = [0, 2]\<rparr>))
     = Inl (TypeError ''Invalue mask type ({})'')
   \<and> eval (ReferenceMap mesh1d3) \<lparr>shape = [1, 1], flat = [1 / 2]\<rparr> 0
       (Some (IntMask Int64 \<lparr>shape = [2], flat = [0, 2]\<rparr>))
     = Inr \<lparr>shape = [2, 1, 1], flat = [1 / 2, 5 / 2]\<rparr>
   \<and> eval (ReferenceMap mesh1d3) \<lparr>shape = [1, 1], flat = [1 / 2]\<rparr> 0
       (Some (BoolMask \<lparr>shape = [3], flat = [False, True, True]\<rparr>))
     = Inr \<lparr>shape = [2, 1, 1], flat = [3 / 2, 5 / 2]\<rparr>"
  by code_simp

subsection \<open>Derivation orders other than 0, 1 and 2\<close>

text \<open>
  For such an order \<open>eval\<close> returns no array, whatever the mesh, the shape element and
  the mask are.
\<close>

lemma eval_no_result:
  assumes "nd_size points \<noteq> 0" and "deriv \<notin> {0, 1, 2}"
  shows "\<exists>e. eval rm points deriv msk = Inl e"
  using assms
  by (auto simp: eval_def np_size_atleast_2d bind_result_def split: sum.splits option.splits)



subsection \<open>Preconditions of the inverse maps\<close>

text \<open>
  C8: \<open>eval_inverse\<close> fails at once when a precondition is violated and never returns
  an array then: with the ValueError for non-linear reference maps when the order of the
  shape element is not 1, with the ValueError for the 1D/2D case when the dimension of
  the mesh is neither 1 nor 2, and with the AssertionError when the length of the first
  axis of the point array is not the dimension of the mesh. The order is tested first,
  then the dimension of the mesh, then the point array; a point array without an axis has
  no first axis to read and is rejected before these tests.
\<close>

theorem eval_inverse_preconditions:
  "(order (shape_elem rm) \<noteq> 1 \<or> dimension (mesh rm) \<notin> {1, 2}
      \<or> np_size points 0 \<noteq> Inr (dimension (mesh rm))
    \<longrightarrow> (\<exists>e. eval_inverse rm points hosts = Inl e))
   \<and> (np_size points 0 = Inr k \<longrightarrow>
        (order (shape_elem rm) \<noteq> 1 \<longrightarrow>
           eval_inverse rm points hosts
             = Inl (ValueError ''Inversion only available for linear reference maps!''))
      \<and> (order (shape_elem rm) = 1 \<and> dimension (mesh rm) \<notin> {1, 2} \<longrightarrow>
           eval_inverse rm points hosts = Inl (ValueError ''Inversion only available for 1D/2D case''))
      \<and> (order (shape_elem rm) = 1 \<and> dimension (mesh rm) \<in> {1, 2} \<and> k \<noteq> dimension (mesh rm) \<longrightarrow>
           eval_inverse rm points hosts = Inl AssertionError))"
  by (cases "np_size points 0") (auto simp: eval_inverse_def)

theorem eval_inverse_preconditions_witness:
  "order (shape_elem \<lparr>mesh = mesh1d, shape_elem = \<lparr>order = 2, eval_basis = P1_eval_basis\<rparr>\<rparr>) \<noteq> 1
   \<and> np_size \<lparr>shape = [1, 1], flat = [3 / 4 :: real]\<rparr> 0 = Inr 1
   \<and> eval_inverse \<lparr>mesh = mesh1d, shape_elem = \<lparr>order = 2, eval_basis = P1_eval_basis\<rparr>\<rparr>
        \<lparr>shape = [1, 1], flat = [3 / 4]\<rparr> \<lparr>shape = [1, 2], flat = [1, 2]\<rparr>
       = Inl (ValueError ''Inversion only available for linear reference maps!'')
   \<and> order (shape_elem (ReferenceMap (mesh1d\<lparr>dimension := 3\<rparr>))) = 1
   \<and> dimension (mesh (ReferenceMap (mesh1d\<lparr>dimension := 3\<rparr>))) \<notin> {1, 2}
   \<and> eval_inverse (ReferenceMap (mesh1d\<lparr>dimension := 3\<rparr>))
        \<lparr>shape = [1, 1], flat = [3 / 4]\<rparr> \<lparr>shape = [1, 2], flat = [1, 2]\<rparr>
       = Inl (ValueError ''Inversion only available for 1D/2D case'')
   \<and> order (shape_elem (ReferenceMap mesh1d)) = 1 \<and> dimension (mesh (ReferenceMap mesh1d)) \<in> {1, 2}
   \<and> np_size \<lparr>shape = [2, 1], flat = [3 / 4, 0 :: real]\<rparr> 0 = Inr 2
   \<and> 2 \<noteq> dimension (mesh (ReferenceMap mesh1d))
   \<and> eval_inverse (ReferenceMap mesh1d) \<lparr>shape = [2, 1], flat = [3 / 4, 0]\<rparr> \<lparr>shape = [1, 2], flat = [1, 2]\<rparr>
       = Inl AssertionError"
proof -
  let ?q = "\<lparr>mesh = mesh1d, shape_elem = \<lparr>order = 2, eval_basis = P1_eval_basis\<rparr>\<rparr>"
  let ?m3 = "ReferenceMap (mesh1d\<lparr>dimension := 3\<rparr>)"
  let ?p1 = "\<lparr>shape = [1, 1], flat = [3 / 4 :: real]\<rparr>"
  let ?p2 = "\<lparr>shape = [2, 1], flat = [3 / 4, 0 :: real]\<rparr>"
  let ?h = "\<lparr>shape = [1, 2], flat = [1, 2 :: int]\<rparr>"
  have a1: "order (shape_elem ?q) \<noteq> 1" by simp
  have a2: "np_size ?p1 0 = Inr 1" by (simp add: np_size_def)
  have b1: "order (shape_elem ?m3) = 1" by (simp add: ReferenceMap_def P1_def)
  have b2: "dimension (mesh ?m3) \<notin> {1, 2}" by (simp add: ReferenceMap_def)
  have c1: "order (shape_elem (ReferenceMap mesh1d)) = 1" by (simp add: ReferenceMap_def P1_def)
  have c2: "dimension (mesh (ReferenceMap mesh1d)) \<in> {1, 2}" by (simp add: ReferenceMap_def mesh1d_def)
  have c3: "np_size ?p2 0 = Inr 2" by (simp add: np_size_def)
  have c4: "2 \<noteq> dimension (mesh (ReferenceMap mesh1d))" by (simp add: ReferenceMap_def mesh1d_def)
  from eval_inverse_preconditions [of ?q ?p1 ?h 1] a1 a2
  have ra: "eval_inverse ?q ?p1 ?h = Inl (ValueError ''Inversion only available for linear reference maps!'')"
    by blast
  from eval_inverse_preconditions [of ?m3 ?p1 ?h 1] b1 b2 a2
  have rb: "eval_inverse ?m3 ?p1 ?h = Inl (ValueError ''Inversion only available for 1D/2D case'')"
    by blast
  from eval_inverse_preconditions [of "ReferenceMap mesh1d" ?p2 ?h 2] c1 c2 c3 c4
  have rc: "eval_inverse (ReferenceMap mesh1d) ?p2 ?h = Inl AssertionError"
    by blast
  show ?thesis
    by (intro conjI) (rule a1 a2 b1 b2 c1 c2 c3 c4 ra rb rc)+
qed

subsection \<open>The inverse maps in one dimension\<close>

lemma elem_scalar [simp]: "elem (scalar x) [] = x"
  by (simp add: elem_def scalar_def)

lemma scalar_simps [simp]: "shape (scalar x) = []" "flat (scalar x) = [x]"
  by (simp_all add: scalar_def)

lemma atleast_2d_rank2 [simp]: "shape a = [m, n] \<Longrightarrow> np_atleast_2d a = a"
  by (simp add: np_atleast_2d_def)

text \<open>The steps of the branch \<open>dim == 1\<close> on the gathered coordinates.\<close>

lemma inverse_1d_steps:
  assumes "shape c = [nP, nV, 1]" "2 \<le> nV" "shape points = [1, nP]"
  shows "\<exists>r. bind_result (np_take c (scalar 0) 1) (\<lambda>p0.
             bind_result (np_getitem c [Slice, Idx 1]) (\<lambda>c1.
             bind_result (np_getitem c [Slice, Idx 0]) (\<lambda>c0.
             bind_result (np_subtract c1 c0) (\<lambda>P.
             bind_result (np_subtract (np_T points) p0) (\<lambda>d.
             bind_result (np_multiply (nd_map (\<lambda>x. 1 / x) P) d) (\<lambda>q.
               Inr (np_T (np_atleast_2d q)))))))) = Inr r
          \<and> shape r = [1, nP] \<and> wf_nd r
          \<and> (\<forall>k<nP. elem r [0, k]
                = 1 / (elem c [k, 1, 0] - elem c [k, 0, 0]) * (elem points [0, k] - elem c [k, 0, 0]))"
  using assms
  by (simp add: np_take_def np_getitem_def np_subtract_def np_multiply_def broadcast2_def
      broadcast_shapes_def index_ok_def wrap_index_def np_T_def elem_nd_map bsource_def)

lemma inverse_1d_elements:
  assumes "order (shape_elem rm) = 1" and "dimension (mesh rm) = 1"
    and "shape points = [1, nP]" and "shape (nodes (mesh rm)) = [nN, 1]"
    and "wf_nd hosts" and "shape hosts = [nP, nV]" and "2 \<le> nV"
    and "set (flat hosts) \<subseteq> {1..int nN}"
  shows "\<exists>r. eval_inverse rm points hosts = Inr r \<and> shape r = [1, nP] \<and> wf_nd r
           \<and> (\<forall>k<nP. elem r [0, k]
                 = 1 / (elem (nodes (mesh rm)) [nat (elem hosts [k, 1] - 1), 0]
                          - elem (nodes (mesh rm)) [nat (elem hosts [k, 0] - 1), 0])
                   * (elem points [0, k] - elem (nodes (mesh rm)) [nat (elem hosts [k, 0] - 1), 0]))"
proof -
  from gather_coords [OF assms(4,5,6,8)]
  obtain c where c: "np_take (nodes (mesh rm)) (nd_map (\<lambda>v. v - 1) hosts) 0 = Inr c"
    "shape c = [nP, nV, 1]"
    "\<forall>e<nP. \<forall>b<nV. \<forall>d<1. elem c [e, b, d] = elem (nodes (mesh rm)) [nat (elem hosts [e, b] - 1), d]"
    by blast
  from inverse_1d_steps [OF c(2) assms(7,3)]
  obtain r where r: "bind_result (np_take c (scalar 0) 1) (\<lambda>p0.
             bind_result (np_getitem c [Slice, Idx 1]) (\<lambda>c1.
             bind_result (np_getitem c [Slice, Idx 0]) (\<lambda>c0.
             bind_result (np_subtract c1 c0) (\<lambda>P.
             bind_result (np_subtract (np_T points) p0) (\<lambda>d.
             bind_result (np_multiply (nd_map (\<lambda>x. 1 / x) P) d) (\<lambda>q.
               Inr (np_T (np_atleast_2d q)))))))) = Inr r"
    "shape r = [1, nP]" "wf_nd r"
    "\<forall>k<nP. elem r [0, k]
        = 1 / (elem c [k, 1, 0] - elem c [k, 0, 0]) * (elem points [0, k] - elem c [k, 0, 0])"
    by blast
  have "eval_inverse rm points hosts = Inr r"
    using assms(1,2,3) c(1) r(1) by (simp add: eval_inverse_def np_size_def)
  moreover have "elem r [0, k]
        = 1 / (elem (nodes (mesh rm)) [nat (elem hosts [k, 1] - 1), 0]
                 - elem (nodes (mesh rm)) [nat (elem hosts [k, 0] - 1), 0])
          * (elem points [0, k] - elem (nodes (mesh rm)) [nat (elem hosts [k, 0] - 1), 0])"
    if "k < nP" for k
    using r(4) c(3) that assms(7) by simp
  ultimately show ?thesis using r(2,3) by blast
qed

text \<open>
  C3, as stated: \<open>eval_inverse(points, hosts)\<close> gathers the vertex coordinates of each host
  element and, in one dimension, returns (point - p0) / (v1 - v0); on the mesh with
  the nodes 0, 1, 2 and the cells \<open>[1, 2]\<close>, \<open>[2, 3]\<close> the global point 0.75 with host 0
  is mapped to 0.75. The source does not look the host up among the cells: \<open>hosts - 1\<close>
  indexes the node array. The host 0, as a number, as \<open>[0]\<close> or as \<open>[[0]]\<close>, selects the
  last node and no second vertex, and the call fails.
\<close>

theorem eval_inverse_host_number:
  "eval_inverse (ReferenceMap mesh1d) \<lparr>shape = [1, 1], flat = [3 / 4]\<rparr> (scalar 0) = Inl AxisError
   \<and> eval_inverse (ReferenceMap mesh1d) \<lparr>shape = [1, 1], flat = [3 / 4]\<rparr> \<lparr>shape = [1], flat = [0]\<rparr>
       = Inl IndexError
   \<and> eval_inverse (ReferenceMap mesh1d) \<lparr>shape = [1, 1], flat = [3 / 4]\<rparr> \<lparr>shape = [1, 1], flat = [0]\<rparr>
       = Inl IndexError"
  by code_simp

text \<open>
  C3, amended: \<open>hosts\<close> holds, for each point, the row of 1-based vertex numbers of its
  host element. \<open>eval_inverse\<close> gathers the coordinates of these vertices and, in one
  dimension, returns for each point with a host of non-zero length
  (point - p0) / (v1 - v0), p0 = v0 being the first and v1 the second vertex of the
  host; on the mesh with the nodes 0, 1, 2 the global point 0.75 with the host
  \<open>[[1, 2]]\<close> is mapped to 0.75.
\<close>

theorem eval_inverse_1d:
  assumes "order (shape_elem rm) = 1" and "dimension (mesh rm) = 1"
    and "shape points = [1, nP]" and "shape (nodes (mesh rm)) = [nN, 1]"
    and "wf_nd hosts" and "shape hosts = [nP, nV]" and "2 \<le> nV"
    and "set (flat hosts) \<subseteq> {1..int nN}"
  shows "(\<exists>r. eval_inverse rm points hosts = Inr r \<and> shape r = [1, nP]
           \<and> (\<forall>k<nP. elem (nodes (mesh rm)) [nat (elem hosts [k, 1] - 1), 0]
                        \<noteq> elem (nodes (mesh rm)) [nat (elem hosts [k, 0] - 1), 0] \<longrightarrow>
                 elem r [0, k]
                   = (elem points [0, k] - elem (nodes (mesh rm)) [nat (elem hosts [k, 0] - 1), 0])
                     / (elem (nodes (mesh rm)) [nat (elem hosts [k, 1] - 1), 0]
                          - elem (nodes (mesh rm)) [nat (elem hosts [k, 0] - 1), 0])))
       \<and> eval_inverse (ReferenceMap mesh1d) \<lparr>shape = [1, 1], flat = [3 / 4]\<rparr> \<lparr>shape = [1, 2], flat = [1, 2]\<rparr>
           = Inr \<lparr>shape = [1, 1], flat = [3 / 4]\<rparr>"
proof -
  have "eval_inverse (ReferenceMap mesh1d) \<lparr>shape = [1, 1], flat = [3 / 4]\<rparr> \<lparr>shape = [1, 2], flat = [1, 2]\<rparr>
           = Inr \<lparr>shape = [1, 1], flat = [3 / 4]\<rparr>"
    by code_simp
  moreover from inverse_1d_elements [OF assms]
  obtain r where r: "eval_inverse rm points hosts = Inr r" "shape r = [1, nP]"
    "\<forall>k<nP. elem r [0, k]
                 = 1 / (elem (nodes (mesh rm)) [nat (elem hosts [k, 1] - 1), 0]
                          - elem (nodes (mesh rm)) [nat (elem hosts [k, 0] - 1), 0])
                   * (elem points [0, k] - elem (nodes (mesh rm)) [nat (elem hosts [k, 0] - 1), 0])"
    by blast
  from r(3) have "\<forall>k<nP. elem (nodes (mesh rm)) [nat (elem hosts [k, 1] - 1), 0]
                        \<noteq> elem (nodes (mesh rm)) [nat (elem hosts [k, 0] - 1), 0] \<longrightarrow>
                 elem r [0, k]
                   = (elem points [0, k] - elem (nodes (mesh rm)) [nat (elem hosts [k, 0] - 1), 0])
                     / (elem (nodes (mesh rm)) [nat (elem hosts [k, 1] - 1), 0]
                          - elem (nodes (mesh rm)) [nat (elem hosts [k, 0] - 1), 0])"
    by simp
  with r(1,2) have "\<exists>r. eval_inverse rm points hosts = Inr r \<and> shape r = [1, nP]
           \<and> (\<forall>k<nP. elem (nodes (mesh rm)) [nat (elem hosts [k, 1] - 1), 0]
                        \<noteq> elem (nodes (mesh rm)) [nat (elem hosts [k, 0] - 1), 0] \<longrightarrow>
                 elem r [0, k]
                   = (elem points [0, k] - elem (nodes (mesh rm)) [nat (elem hosts [k, 0] - 1), 0])
                     / (elem (nodes (mesh rm)) [nat (elem hosts [k, 1] - 1), 0]
                          - elem (nodes (mesh rm)) [nat (elem hosts [k, 0] - 1), 0]))"
    by blast
  ultimately show ?thesis by blast
qed

theorem eval_inverse_1d_witness:
  "order (shape_elem (ReferenceMap mesh1d)) = 1 \<and> dimension (mesh (ReferenceMap mesh1d)) = 1
   \<and> shape (nodes (mesh (ReferenceMap mesh1d))) = [3, 1]
   \<and> wf_nd \<lparr>shape = [2, 2], flat = [1, 2, 2, 3 :: int]\<rparr>
   \<and> set (flat \<lparr>shape = [2, 2], flat = [1, 2, 2, 3 :: int]\<rparr>) \<subseteq> {1..int 3}
   \<and> (\<exists>r. eval_inverse (ReferenceMap mesh1d) \<lparr>shape = [1, 2], flat = [3 / 4, 3 / 2]\<rparr>
              \<lparr>shape = [2, 2], flat = [1, 2, 2, 3]\<rparr> = Inr r
          \<and> shape r = [1, 2] \<and> elem r [0, 0] = 3 / 4 \<and> elem r [0, 1] = 1 / 2)"
proof -
  let ?rm = "ReferenceMap mesh1d"
  let ?p = "\<lparr>shape = [1, 2], flat = [3 / 4, 3 / 2 :: real]\<rparr>"
  let ?h = "\<lparr>shape = [2, 2], flat = [1, 2, 2, 3 :: int]\<rparr>"
  have h1: "order (shape_elem ?rm) = 1" by code_simp
  have h2: "dimension (mesh ?rm) = 1" by code_simp
  have h3: "shape ?p = [1, 2]" by simp
  have h4: "shape (nodes (mesh ?rm)) = [3, 1]" by code_simp
  have h5: "wf_nd ?h" by code_simp
  have h6: "shape ?h = [2, 2]" by simp
  have h7: "(2 :: nat) \<le> 2" by simp
  have h8: "set (flat ?h) \<subseteq> {1..int 3}" by simp
  from eval_inverse_1d [OF h1 h2 h3 h4 h5 h6 h7 h8, THEN conjunct1]
  obtain r where r: "eval_inverse ?rm ?p ?h = Inr r" "shape r = [1, 2]"
    "\<forall>k<2. elem (nodes (mesh ?rm)) [nat (elem ?h [k, 1] - 1), 0]
                        \<noteq> elem (nodes (mesh ?rm)) [nat (elem ?h [k, 0] - 1), 0] \<longrightarrow>
                 elem r [0, k]
                   = (elem ?p [0, k] - elem (nodes (mesh ?rm)) [nat (elem ?h [k, 0] - 1), 0])
                     / (elem (nodes (mesh ?rm)) [nat (elem ?h [k, 1] - 1), 0]
                          - elem (nodes (mesh ?rm)) [nat (elem ?h [k, 0] - 1), 0])"
    by blast
  have n: "nodes (mesh ?rm) = \<lparr>shape = [3, 1], flat = [0, 1, 2]\<rparr>"
    by (simp add: ReferenceMap_def mesh1d_def)
  from r(3) have "elem r [0, 0] = 3 / 4"
    by (simp add: n elem_def)
  moreover from r(3) have "elem r [0, 1] = 1 / 2"
    by (simp add: n elem_def)
  ultimately have "\<exists>r. eval_inverse ?rm ?p ?h = Inr r
          \<and> shape r = [1, 2] \<and> elem r [0, 0] = 3 / 4 \<and> elem r [0, 1] = 1 / 2"
    using r(1,2) by blast
  then show ?thesis
    by (intro conjI) (rule h1 h2 h4 h5 h8 | assumption)+
qed

subsection \<open>The inverse maps in two dimensions\<close>

text \<open>
  The steps of the branch \<open>dim == 2\<close>, one numpy call at a time: the vertices of the
  hosts, the two edge vectors, the matrix with the edge vectors as columns, its inverse,
  and the product of the inverse with the point relative to the first vertex.
\<close>

lemma in_bounds2: "in_bounds [a, b] ix \<longleftrightarrow> (\<exists>i j. ix = [i, j] \<and> i < a \<and> j < b)"
  apply (cases ix; simp)
  subgoal for i ix1 apply (cases ix1; simp)
    subgoal for j ix2 by (cases ix2; auto) done done

lemma det_1: "det 1 m = m 0 0"
  by simp

lemma det_2: "det 2 m = m 0 0 * m 1 1 - m 0 1 * m 1 0"
  by (simp add: numeral_2_eq_2 minor_def)

lemma det_3: "det 3 m = m 0 0 * (m 1 1 * m 2 2 - m 1 2 * m 2 1)
                      - m 0 1 * (m 1 0 * m 2 2 - m 1 2 * m 2 0)
                      + m 0 2 * (m 1 0 * m 2 1 - m 1 1 * m 2 0)"
  by (simp add: numeral_3_eq_3 numeral_2_eq_2 minor_def algebra_simps)

lemma getitem_vertex:
  assumes "shape c = [nP, nV, D]" "j < nV"
  shows "\<exists>x. np_getitem c [Slice, Idx (int j)] = Inr x \<and> shape x = [nP, D] \<and> wf_nd x
           \<and> (\<forall>k<nP. \<forall>d<D. elem x [k, d] = elem c [k, j, d])"
  using assms by (simp add: np_getitem_def index_ok_def wrap_index_def)

lemma take_first_vertex:
  assumes "shape c = [nP, nV, D]" "0 < nV"
  shows "\<exists>x. np_take c (scalar 0) 1 = Inr x \<and> shape x = [nP, D] \<and> wf_nd x
           \<and> (\<forall>k<nP. \<forall>d<D. elem x [k, d] = elem c [k, 0, d])"
  using assms by (simp add: np_take_def index_ok_def wrap_index_def)

lemma subtract_rows:
  assumes "shape a = [m, n]" "shape b = [m, n]"
  shows "\<exists>x. np_subtract a b = Inr x \<and> shape x = [m, n] \<and> wf_nd x
           \<and> (\<forall>k<m. \<forall>d<n. elem x [k, d] = elem a [k, d] - elem b [k, d])"
  using assms by (simp add: np_subtract_def broadcast2_def broadcast_shapes_def bsource_def)

lemma elem_T2: "shape a = [m, n] \<Longrightarrow> k < n \<Longrightarrow> i < m \<Longrightarrow> elem (np_T a) [k, i] = elem a [i, k]"
  by (simp add: np_T_def)

lemma shape_T2 [simp]: "shape a = [m, n] \<Longrightarrow> shape (np_T a) = [n, m]"
  by (simp add: np_T_def)

lemma wf_T [simp]: "wf_nd (np_T a)"
  by (simp add: np_T_def)

lemma atleast_3d_rank2:
  assumes "wf_nd a" "shape a = [m, n]"
  shows "shape (np_atleast_3d a) = [m, n, 1]"
    and "k < m \<Longrightarrow> i < n \<Longrightarrow> elem (np_atleast_3d a) [k, i, 0] = elem a [k, i]"
  using assms by (simp_all add: np_atleast_3d_def elem_def)

lemma dstack_rows:
  assumes "wf_nd a" "shape a = [m, n]" "wf_nd b" "shape b = [m, n]"
  shows "\<exists>P. np_dstack a b = Inr P \<and> shape P = [m, n, 2] \<and> wf_nd P
           \<and> (\<forall>k<m. \<forall>i<n. elem P [k, i, 0] = elem a [k, i] \<and> elem P [k, i, 1] = elem b [k, i])"
  using assms by (simp add: np_dstack_def Let_def atleast_3d_rank2)

lemma inv_2x2:
  assumes "shape P = [nP, 2, 2]"
    and "\<forall>k<nP. elem P [k, 0, 0] * elem P [k, 1, 1] - elem P [k, 0, 1] * elem P [k, 1, 0] \<noteq> 0"
  shows "\<exists>Q. np_linalg_inv P = Inr Q \<and> shape Q = [nP, 2, 2] \<and> wf_nd Q
           \<and> (\<forall>k<nP. elem Q [k, 0, 0] = elem P [k, 1, 1] / (elem P [k, 0, 0] * elem P [k, 1, 1] - elem P [k, 0, 1] * elem P [k, 1, 0])
                    \<and> elem Q [k, 0, 1] = - elem P [k, 0, 1] / (elem P [k, 0, 0] * elem P [k, 1, 1] - elem P [k, 0, 1] * elem P [k, 1, 0])
                    \<and> elem Q [k, 1, 0] = - elem P [k, 1, 0] / (elem P [k, 0, 0] * elem P [k, 1, 1] - elem P [k, 0, 1] * elem P [k, 1, 0])
                    \<and> elem Q [k, 1, 1] = elem P [k, 0, 0] / (elem P [k, 0, 0] * elem P [k, 1, 1] - elem P [k, 0, 1] * elem P [k, 1, 0]))"
  using assms by (simp add: np_linalg_inv_def Let_def list_ex_iff det_2 block_def minor_def)

lemma apply_inverse_2x2:
  assumes "shape Q = [nP, 2, 2]" "shape d = [nP, 2]"
  shows "\<exists>r. bind_result (np_getitem d [Slice, NewAxis, Slice]) (\<lambda>d'.
             bind_result (np_multiply Q d') (\<lambda>prod.
             bind_result (np_sum prod (- 1)) (\<lambda>preimages.
               Inr (np_T preimages)))) = Inr r
           \<and> shape r = [2, nP] \<and> wf_nd r
           \<and> (\<forall>k<nP. \<forall>i<2. elem r [i, k] = elem Q [k, i, 0] * elem d [k, 0] + elem Q [k, i, 1] * elem d [k, 1])"
  using assms
  by (simp add: np_getitem_def np_multiply_def broadcast2_def broadcast_shapes_def np_sum_def
      index_ok_def wrap_index_def np_T_def bsource_def numeral_2_eq_2)

lemma inverse_2d_elements:
  fixes rm hosts
  defines "X \<equiv> \<lambda>k j d. elem (nodes (mesh rm)) [nat (elem hosts [k, j] - 1), d]"
  assumes "order (shape_elem rm) = 1" and "dimension (mesh rm) = 2"
    and "shape points = [2, nP]" and "shape (nodes (mesh rm)) = [nN, 2]"
    and "wf_nd hosts" and "shape hosts = [nP, nV]" and "3 \<le> nV"
    and "set (flat hosts) \<subseteq> {1..int nN}"
    and nondeg: "\<forall>k<nP. (X k 1 0 - X k 0 0) * (X k 2 1 - X k 0 1) - (X k 2 0 - X k 0 0) * (X k 1 1 - X k 0 1) \<noteq> 0"
  shows "\<exists>r. eval_inverse rm points hosts = Inr r \<and> shape r = [2, nP] \<and> wf_nd r
           \<and> (\<forall>k<nP.
                 elem r [0, k] = ((X k 2 1 - X k 0 1) * (elem points [0, k] - X k 0 0)
                                  - (X k 2 0 - X k 0 0) * (elem points [1, k] - X k 0 1))
                    / ((X k 1 0 - X k 0 0) * (X k 2 1 - X k 0 1) - (X k 2 0 - X k 0 0) * (X k 1 1 - X k 0 1))
               \<and> elem r [1, k] = ((X k 1 0 - X k 0 0) * (elem points [1, k] - X k 0 1)
                                  - (X k 1 1 - X k 0 1) * (elem points [0, k] - X k 0 0))
                    / ((X k 1 0 - X k 0 0) * (X k 2 1 - X k 0 1) - (X k 2 0 - X k 0 0) * (X k 1 1 - X k 0 1)))"
proof -
  from gather_coords [OF assms(5,6,7,9)]
  obtain c where c: "np_take (nodes (mesh rm)) (nd_map (\<lambda>v. v - 1) hosts) 0 = Inr c"
    "shape c = [nP, nV, 2]"
    and cX: "\<forall>e<nP. \<forall>b<nV. \<forall>d<2. elem c [e, b, d] = X e b d"
    unfolding X_def by blast
  have nV: "0 < nV" "1 < nV" "2 < nV" using assms(8) by simp_all
  from take_first_vertex [OF c(2) nV(1)]
  obtain p0 where p0: "np_take c (scalar 0) 1 = Inr p0" "shape p0 = [nP, 2]"
    "\<forall>k<nP. \<forall>d<2. elem p0 [k, d] = elem c [k, 0, d]" by blast
  from getitem_vertex [OF c(2) nV(2)]
  obtain c1 where c1: "np_getitem c [Slice, Idx 1] = Inr c1" "shape c1 = [nP, 2]"
    "\<forall>k<nP. \<forall>d<2. elem c1 [k, d] = elem c [k, 1, d]" by auto
  from getitem_vertex [OF c(2) nV(1)]
  obtain c0 where c0: "np_getitem c [Slice, Idx 0] = Inr c0" "shape c0 = [nP, 2]"
    "\<forall>k<nP. \<forall>d<2. elem c0 [k, d] = elem c [k, 0, d]" by auto
  from getitem_vertex [OF c(2) nV(3)]
  obtain c2 where c2: "np_getitem c [Slice, Idx 2] = Inr c2" "shape c2 = [nP, 2]"
    "\<forall>k<nP. \<forall>d<2. elem c2 [k, d] = elem c [k, 2, d]" by auto
  from subtract_rows [OF c1(2) c0(2)]
  obtain p10 where p10: "np_subtract c1 c0 = Inr p10" "shape p10 = [nP, 2]" "wf_nd p10"
    "\<forall>k<nP. \<forall>d<2. elem p10 [k, d] = elem c1 [k, d] - elem c0 [k, d]" by blast
  from subtract_rows [OF c2(2) c0(2)]
  obtain p20 where p20: "np_subtract c2 c0 = Inr p20" "shape p20 = [nP, 2]" "wf_nd p20"
    "\<forall>k<nP. \<forall>d<2. elem p20 [k, d] = elem c2 [k, d] - elem c0 [k, d]" by blast
  from dstack_rows [OF p10(3,2) p20(3,2)]
  obtain P where P: "np_dstack p10 p20 = Inr P" "shape P = [nP, 2, 2]"
    "\<forall>k<nP. \<forall>i<2. elem P [k, i, 0] = elem p10 [k, i] \<and> elem P [k, i, 1] = elem p20 [k, i]" by blast
  have PX: "\<forall>k<nP. elem P [k, 0, 0] = X k 1 0 - X k 0 0 \<and> elem P [k, 0, 1] = X k 2 0 - X k 0 0
                \<and> elem P [k, 1, 0] = X k 1 1 - X k 0 1 \<and> elem P [k, 1, 1] = X k 2 1 - X k 0 1"
    using P(3) p10(4) p20(4) c0(3) c1(3) c2(3) cX nV by simp
  have "\<forall>k<nP. elem P [k, 0, 0] * elem P [k, 1, 1] - elem P [k, 0, 1] * elem P [k, 1, 0] \<noteq> 0"
    using nondeg PX by simp
  from inv_2x2 [OF P(2) this]
  obtain Q where Q: "np_linalg_inv P = Inr Q" "shape Q = [nP, 2, 2]"
    "\<forall>k<nP. elem Q [k, 0, 0] = elem P [k, 1, 1] / (elem P [k, 0, 0] * elem P [k, 1, 1] - elem P [k, 0, 1] * elem P [k, 1, 0])
                    \<and> elem Q [k, 0, 1] = - elem P [k, 0, 1] / (elem P [k, 0, 0] * elem P [k, 1, 1] - elem P [k, 0, 1] * elem P [k, 1, 0])
                    \<and> elem Q [k, 1, 0] = - elem P [k, 1, 0] / (elem P [k, 0, 0] * elem P [k, 1, 1] - elem P [k, 0, 1] * elem P [k, 1, 0])
                    \<and> elem Q [k, 1, 1] = elem P [k, 0, 0] / (elem P [k, 0, 0] * elem P [k, 1, 1] - elem P [k, 0, 1] * elem P [k, 1, 0])"
    by blast
  have sT: "shape (np_T points) = [nP, 2]" using assms(4) by simp
  from subtract_rows [OF sT p0(2)]
  obtain d where d: "np_subtract (np_T points) p0 = Inr d" "shape d = [nP, 2]"
    "\<forall>k<nP. \<forall>i<2. elem d [k, i] = elem (np_T points) [k, i] - elem p0 [k, i]" by blast
  have dX: "\<forall>k<nP. elem d [k, 0] = elem points [0, k] - X k 0 0 \<and> elem d [k, 1] = elem points [1, k] - X k 0 1"
    using d(3) p0(3) cX nV assms(4) by (simp add: elem_T2)
  from apply_inverse_2x2 [OF Q(2) d(2)]
  obtain r where r: "bind_result (np_getitem d [Slice, NewAxis, Slice]) (\<lambda>d'.
             bind_result (np_multiply Q d') (\<lambda>prod.
             bind_result (np_sum prod (- 1)) (\<lambda>preimages.
               Inr (np_T preimages)))) = Inr r"
    "shape r = [2, nP]" "wf_nd r"
    "\<forall>k<nP. \<forall>i<2. elem r [i, k] = elem Q [k, i, 0] * elem d [k, 0] + elem Q [k, i, 1] * elem d [k, 1]"
    by blast
  have "eval_inverse rm points hosts = Inr r"
    using assms(2,3,4) c(1) p0(1) c1(1) c0(1) c2(1) p10(1) p20(1) P(1) Q(1) d(1) r(1)
    by (simp add: eval_inverse_def np_size_def)
  moreover have "elem r [0, k] = ((X k 2 1 - X k 0 1) * (elem points [0, k] - X k 0 0)
                                  - (X k 2 0 - X k 0 0) * (elem points [1, k] - X k 0 1))
                    / ((X k 1 0 - X k 0 0) * (X k 2 1 - X k 0 1) - (X k 2 0 - X k 0 0) * (X k 1 1 - X k 0 1))
               \<and> elem r [1, k] = ((X k 1 0 - X k 0 0) * (elem points [1, k] - X k 0 1)
                                  - (X k 1 1 - X k 0 1) * (elem points [0, k] - X k 0 0))
                    / ((X k 1 0 - X k 0 0) * (X k 2 1 - X k 0 1) - (X k 2 0 - X k 0 0) * (X k 1 1 - X k 0 1))"
    if k: "k < nP" for k
  proof -
    define a where "a = X k 1 0 - X k 0 0"
    define b where "b = X k 2 0 - X k 0 0"
    define c' where "c' = X k 1 1 - X k 0 1"
    define d' where "d' = X k 2 1 - X k 0 1"
    define u where "u = elem points [0, k] - X k 0 0"
    define v where "v = elem points [1, k] - X k 0 1"
    have pk: "elem P [k, 0, 0] = a" "elem P [k, 0, 1] = b" "elem P [k, 1, 0] = c'" "elem P [k, 1, 1] = d'"
      using PX k by (simp_all add: a_def b_def c'_def d'_def)
    have dk: "elem d [k, 0] = u" "elem d [k, 1] = v"
      using dX k by (simp_all add: u_def v_def)
    have qk: "elem Q [k, 0, 0] = d' / (a * d' - b * c')" "elem Q [k, 0, 1] = - b / (a * d' - b * c')"
      "elem Q [k, 1, 0] = - c' / (a * d' - b * c')" "elem Q [k, 1, 1] = a / (a * d' - b * c')"
      using Q(3) k pk by simp_all
    have "elem r [0, k] = elem Q [k, 0, 0] * elem d [k, 0] + elem Q [k, 0, 1] * elem d [k, 1]"
      using r(4) k by simp
    then have r0: "elem r [0, k] = (d' * u - b * v) / (a * d' - b * c')"
      unfolding qk dk by (simp add: diff_divide_distrib)
    have "elem r [1, k] = elem Q [k, 1, 0] * elem d [k, 0] + elem Q [k, 1, 1] * elem d [k, 1]"
      using r(4) k by simp
    then have r1: "elem r [1, k] = (a * v - c' * u) / (a * d' - b * c')"
      unfolding qk dk by (simp add: diff_divide_distrib)
    show ?thesis
      using r0 r1 unfolding a_def b_def c'_def d'_def u_def v_def by simp
  qed
  ultimately show ?thesis using r(2,3) by blast
qed

subsection \<open>The forward map followed by the inverse map\<close>

lemma elem_literal: "elem \<lparr>shape = s, flat = xs\<rparr> ix = xs ! ravel s ix"
  by (simp add: elem_def)

lemma sum_list_upt_2: "sum_list (map f [0..<2]) = f 0 + (f 1 :: real)"
  by (simp add: numeral_2_eq_2)

lemma sum_list_upt_3: "sum_list (map f [0..<3]) = f 0 + f 1 + (f 2 :: real)"
  by (simp add: numeral_3_eq_3 numeral_2_eq_2)

lemma flat_elem_ex:
  assumes "wf_nd a" "x \<in> set (flat a)"
  shows "\<exists>ix. in_bounds (shape a) ix \<and> x = elem a ix"
proof -
  from assms obtain k where k: "k < prod_list (shape a)" "x = flat a ! k"
    by (auto simp: in_set_conv_nth wf_nd_def)
  then have "in_bounds (shape a) (unravel (shape a) k)" "x = elem a (unravel (shape a) k)"
    by (simp_all add: in_bounds_unravel elem_def ravel_unravel)
  then show ?thesis by blast
qed

lemma take_row:
  assumes "shape a = [nE, nB]" "e < nE" "wf_nd a"
  shows "\<exists>h. np_take a \<lparr>shape = [1], flat = [int e]\<rparr> 0 = Inr h \<and> shape h = [1, nB] \<and> wf_nd h
           \<and> (\<forall>b<nB. elem h [0, b] = elem a [e, b]) \<and> set (flat h) \<subseteq> set (flat a)"
proof -
  let ?h = "of_fun [1, nB] (\<lambda>ix. elem a (wrap_index nE (elem \<lparr>shape = [1], flat = [int e]\<rparr> (take 1 ix)) # drop 1 ix))"
  have t: "np_take a \<lparr>shape = [1], flat = [int e]\<rparr> 0 = Inr ?h"
    using assms by (simp add: np_take_def index_ok_def)
  have el: "elem ?h [0, b] = elem a [e, b]" if "b < nB" for b
    using that assms by (simp add: wrap_index_def elem_literal)
  have "x \<in> set (flat a)" if "x \<in> set (flat ?h)" for x
  proof -
    from flat_elem_ex [OF _ that] obtain ix where "in_bounds [1, nB] ix" "x = elem ?h ix"
      by auto
    then obtain b where "b < nB" "x = elem ?h [0, b]" by (auto simp: in_bounds2)
    with el have "x = elem a [e, b]" by simp
    then show ?thesis using assms \<open>b < nB\<close> by (simp add: elem_mem_flat)
  qed
  with t el show ?thesis by auto
qed

lemma getitem_entity:
  assumes "shape g = [nE, nP, D]" "e < nE"
  shows "\<exists>x. np_getitem g [Idx (int e)] = Inr x \<and> shape x = [nP, D]
           \<and> (\<forall>p<nP. \<forall>d<D. elem x [p, d] = elem g [e, p, d])"
  using assms by (simp add: np_getitem_def index_ok_def wrap_index_def)

lemma all_less_2: "(\<forall>e<2. P e) \<longleftrightarrow> P 0 \<and> P (1 :: nat)"
  by (auto simp: less_2_cases_iff)

lemma round_trip_1d:
  fixes rm :: reference_map and cells :: "int ndarray" and e :: nat
  defines "V \<equiv> \<lambda>j. elem (nodes (mesh rm)) [nat (elem cells [e, j] - 1), 0]"
  assumes ord: "order (shape_elem rm) = 1"
    and dim: "dimension (mesh rm) = 1" and nds: "shape (nodes (mesh rm)) = [nN, 1]"
    and ents: "get_entities (mesh rm) 1 = Inr cells" "wf_nd cells" "shape cells = [nE, 2]"
    and valid: "set (flat cells) \<subseteq> {1..int nN}" and e: "e < nE"
    and b: "eval_basis (shape_elem rm) \<lparr>shape = [1, 1], flat = [xi]\<rparr> 0 = Inr b" "shape b = [2, 1]"
      "elem b [0, 0] = 1 - xi" "elem b [1, 0] = xi"
    and nondeg: "V 1 \<noteq> V 0"
  shows "\<exists>g x hosts. eval rm \<lparr>shape = [1, 1], flat = [xi]\<rparr> 0 None = Inr g
          \<and> np_getitem g [Idx (int e)] = Inr x
          \<and> np_take cells \<lparr>shape = [1], flat = [int e]\<rparr> 0 = Inr hosts
          \<and> eval_inverse rm (np_T x) hosts = Inr \<lparr>shape = [1, 1], flat = [xi]\<rparr>"
proof -
  let ?pts = "\<lparr>shape = [1, 1], flat = [xi]\<rparr>"
  have ne: "nd_size ?pts \<noteq> 0" by (simp add: nd_size_def)
  have "\<exists>r. eval rm ?pts 0 None = Inr r \<and> shape r = [nE, 1, 1] \<and> wf_nd r
           \<and> (\<forall>e<nE. \<forall>p<1. \<forall>d<1. elem r [e, p, d]
                 = sum_list (map (\<lambda>j. elem (nodes (mesh rm)) [nat (elem cells [e, j] - 1), d]
                                      * elem b [j, p]) [0..<2]))"
    by (rule eval0_elements [OF ne _ b(2) _ ents(2,3) nds valid])
       (use b ents in simp_all)
  then obtain g where g: "eval rm ?pts 0 None = Inr g" "shape g = [nE, 1, 1]"
    "elem g [e, 0, 0] = V 0 * (1 - xi) + V 1 * xi"
    using e b(3,4) by (auto simp: V_def sum_list_upt_2)
  from getitem_entity [OF g(2) e]
  obtain x where x: "np_getitem g [Idx (int e)] = Inr x" "shape x = [1, 1]"
    "elem x [0, 0] = elem g [e, 0, 0]" by auto
  from take_row [OF ents(3) e ents(2)]
  obtain hosts where h: "np_take cells \<lparr>shape = [1], flat = [int e]\<rparr> 0 = Inr hosts"
    "shape hosts = [1, 2]" "wf_nd hosts" "\<forall>b<2. elem hosts [0, b] = elem cells [e, b]"
    "set (flat hosts) \<subseteq> set (flat cells)" by blast
  have hs: "set (flat hosts) \<subseteq> {1..int nN}" using h(5) valid by blast
  have sx: "shape (np_T x) = [1, 1]" using x(2) by simp
  from inverse_1d_elements [of rm "np_T x" 1 nN hosts 2, OF ord dim sx nds h(3,2) _ hs]
  obtain r where r: "eval_inverse rm (np_T x) hosts = Inr r" "shape r = [1, 1]" "wf_nd r"
    "elem r [0, 0] = 1 / (V 1 - V 0) * (elem (np_T x) [0, 0] - V 0)"
    using h(4) by (auto simp: V_def)
  have "elem (np_T x) [0, 0] = V 0 * (1 - xi) + V 1 * xi"
    using x(2,3) g(3) by (simp add: elem_T2)
  then have "elem (np_T x) [0, 0] - V 0 = xi * (V 1 - V 0)"
    by (simp add: algebra_simps)
  with r(4) nondeg have r0: "elem r [0, 0] = xi"
    by simp
  have "r = ?pts"
  proof (rule nd_eqI)
    show "wf_nd r" by (rule r(3))
    show "wf_nd ?pts" by (simp add: wf_nd_def)
    show "shape r = shape ?pts" using r(2) by simp
    fix ix assume "in_bounds (shape r) ix"
    then have "ix = [0, 0]" using r(2) by (auto simp: in_bounds2)
    then show "elem r ix = elem ?pts ix" using r0 by (simp add: elem_literal)
  qed
  with g(1) x(1) h(1) r(1) show ?thesis by blast
qed

lemma round_trip_2d:
  fixes rm :: reference_map and cells :: "int ndarray" and e :: nat
  defines "V \<equiv> \<lambda>j d. elem (nodes (mesh rm)) [nat (elem cells [e, j] - 1), d]"
  assumes ord: "order (shape_elem rm) = 1"
    and dim: "dimension (mesh rm) = 2" and nds: "shape (nodes (mesh rm)) = [nN, 2]"
    and ents: "get_entities (mesh rm) 2 = Inr cells" "wf_nd cells" "shape cells = [nE, 3]"
    and valid: "set (flat cells) \<subseteq> {1..int nN}" and e: "e < nE"
    and b: "eval_basis (shape_elem rm) \<lparr>shape = [2, 1], flat = [xi, eta]\<rparr> 0 = Inr b" "shape b = [3, 1]"
      "elem b [0, 0] = 1 - (xi + eta)" "elem b [1, 0] = xi" "elem b [2, 0] = eta"
    and nondeg: "(V 1 0 - V 0 0) * (V 2 1 - V 0 1) - (V 2 0 - V 0 0) * (V 1 1 - V 0 1) \<noteq> 0"
  shows "\<exists>g x hosts. eval rm \<lparr>shape = [2, 1], flat = [xi, eta]\<rparr> 0 None = Inr g
          \<and> np_getitem g [Idx (int e)] = Inr x
          \<and> np_take cells \<lparr>shape = [1], flat = [int e]\<rparr> 0 = Inr hosts
          \<and> eval_inverse rm (np_T x) hosts = Inr \<lparr>shape = [2, 1], flat = [xi, eta]\<rparr>"
proof -
  let ?pts = "\<lparr>shape = [2, 1], flat = [xi, eta]\<rparr>"
  have ne: "nd_size ?pts \<noteq> 0" by (simp add: nd_size_def)
  have "\<exists>r. eval rm ?pts 0 None = Inr r \<and> shape r = [nE, 1, 2] \<and> wf_nd r
           \<and> (\<forall>e<nE. \<forall>p<1. \<forall>d<2. elem r [e, p, d]
                 = sum_list (map (\<lambda>j. elem (nodes (mesh rm)) [nat (elem cells [e, j] - 1), d]
                                      * elem b [j, p]) [0..<3]))"
    by (rule eval0_elements [OF ne _ b(2) _ ents(2,3) nds valid])
       (use b ents in simp_all)
  then obtain g where g: "eval rm ?pts 0 None = Inr g" "shape g = [nE, 1, 2]"
    "\<forall>d<2. elem g [e, 0, d] = V 0 d * (1 - (xi + eta)) + V 1 d * xi + V 2 d * eta"
    using e b(3,4,5) by (auto simp: V_def sum_list_upt_3)
  from getitem_entity [OF g(2) e]
  obtain x where x: "np_getitem g [Idx (int e)] = Inr x" "shape x = [1, 2]"
    "\<forall>d<2. elem x [0, d] = elem g [e, 0, d]" by auto
  from take_row [OF ents(3) e ents(2)]
  obtain hosts where h: "np_take cells \<lparr>shape = [1], flat = [int e]\<rparr> 0 = Inr hosts"
    "shape hosts = [1, 3]" "wf_nd hosts" "\<forall>b<3. elem hosts [0, b] = elem cells [e, b]"
    "set (flat hosts) \<subseteq> set (flat cells)" by blast
  have hs: "set (flat hosts) \<subseteq> {1..int nN}" using h(5) valid by blast
  have sx: "shape (np_T x) = [2, 1]" using x(2) by simp
  have hV: "elem (nodes (mesh rm)) [nat (elem hosts [0, j] - 1), d] = V j d" if "j < 3" for j d
    using h(4) that by (simp add: V_def)
  have nd: "\<forall>k<1. (elem (nodes (mesh rm)) [nat (elem hosts [k, 1] - 1), 0] - elem (nodes (mesh rm)) [nat (elem hosts [k, 0] - 1), 0])
                 * (elem (nodes (mesh rm)) [nat (elem hosts [k, 2] - 1), 1] - elem (nodes (mesh rm)) [nat (elem hosts [k, 0] - 1), 1])
               - (elem (nodes (mesh rm)) [nat (elem hosts [k, 2] - 1), 0] - elem (nodes (mesh rm)) [nat (elem hosts [k, 0] - 1), 0])
                 * (elem (nodes (mesh rm)) [nat (elem hosts [k, 1] - 1), 1] - elem (nodes (mesh rm)) [nat (elem hosts [k, 0] - 1), 1]) \<noteq> 0"
    using nondeg by (simp add: hV)
  have px: "elem (np_T x) [0, 0] - V 0 0 = xi * (V 1 0 - V 0 0) + eta * (V 2 0 - V 0 0)"
    and py: "elem (np_T x) [1, 0] - V 0 1 = xi * (V 1 1 - V 0 1) + eta * (V 2 1 - V 0 1)"
    using x(2,3) g(3) by (simp_all add: elem_T2 algebra_simps)
  from inverse_2d_elements [of rm "np_T x" 1 nN hosts 3, OF ord dim sx nds h(3,2) _ hs nd]
  obtain r where r: "eval_inverse rm (np_T x) hosts = Inr r" "shape r = [2, 1]" "wf_nd r"
    "elem r [0, 0] = ((V 2 1 - V 0 1) * (elem (np_T x) [0, 0] - V 0 0)
                      - (V 2 0 - V 0 0) * (elem (np_T x) [1, 0] - V 0 1))
          / ((V 1 0 - V 0 0) * (V 2 1 - V 0 1) - (V 2 0 - V 0 0) * (V 1 1 - V 0 1))"
    "elem r [1, 0] = ((V 1 0 - V 0 0) * (elem (np_T x) [1, 0] - V 0 1)
                      - (V 1 1 - V 0 1) * (elem (np_T x) [0, 0] - V 0 0))
          / ((V 1 0 - V 0 0) * (V 2 1 - V 0 1) - (V 2 0 - V 0 0) * (V 1 1 - V 0 1))"
    by (auto simp: hV)
  define a where "a = V 1 0 - V 0 0"
  define b' where "b' = V 2 0 - V 0 0"
  define c' where "c' = V 1 1 - V 0 1"
  define d' where "d' = V 2 1 - V 0 1"
  have det: "a * d' - b' * c' \<noteq> 0"
    using nondeg by (simp add: a_def b'_def c'_def d'_def)
  have "d' * (xi * a + eta * b') - b' * (xi * c' + eta * d') = xi * (a * d' - b' * c')"
    by (simp add: algebra_simps)
  with r(4) det have r0: "elem r [0, 0] = xi"
    unfolding px py a_def [symmetric] b'_def [symmetric] c'_def [symmetric] d'_def [symmetric]
    by simp
  have "a * (xi * c' + eta * d') - c' * (xi * a + eta * b') = eta * (a * d' - b' * c')"
    by (simp add: algebra_simps)
  with r(5) det have r1: "elem r [1, 0] = eta"
    unfolding px py a_def [symmetric] b'_def [symmetric] c'_def [symmetric] d'_def [symmetric]
    by simp
  have "r = ?pts"
  proof (rule nd_eqI)
    show "wf_nd r" by (rule r(3))
    show "wf_nd ?pts" by (simp add: wf_nd_def)
    show "shape r = shape ?pts" using r(2) by simp
    fix ix assume "in_bounds (shape r) ix"
    then have "ix = [0, 0] \<or> ix = [1, 0]" using r(2) by (auto simp: in_bounds2)
    then show "elem r ix = elem ?pts ix" using r0 r1 by (auto simp: elem_literal)
  qed
  with g(1) x(1) h(1) r(1) show ?thesis by blast
qed

text \<open>
  C2: for a non-degenerate straight-sided element of a mesh of dimension 1 or 2 and a
  local point \<open>xi\<close>, the inverse map applied to the image of \<open>xi\<close> under the map of
  that element, with that element as host, returns \<open>xi\<close>. The image is the row of the
  element in the result of \<open>eval\<close>, transposed to one column per point; the host is the
  row of the vertex numbers of the element. The shape element is any element of order 1
  whose basis functions take at \<open>xi\<close> the values of the linear nodal basis: 1 minus the
  sum of the coordinates, then the coordinates. The arithmetic is exact here, so the
  result is \<open>xi\<close> itself. Non-degenerate means that the two end points differ, or that
  the two edge vectors of the triangle are linearly independent.
\<close>

theorem affine_round_trip:
  fixes rm :: reference_map and cells :: "int ndarray" and e :: nat
  defines "V \<equiv> \<lambda>j d. elem (nodes (mesh rm)) [nat (elem cells [e, j] - 1), d]"
  assumes "order (shape_elem rm) = 1" and "dimension (mesh rm) = D" and "length xi = D"
    and "shape (nodes (mesh rm)) = [nN, D]"
    and "get_entities (mesh rm) D = Inr cells" and "wf_nd cells" and "shape cells = [nE, Suc D]"
    and "set (flat cells) \<subseteq> {1..int nN}" and "e < nE"
    and "eval_basis (shape_elem rm) \<lparr>shape = [D, 1], flat = xi\<rparr> 0 = Inr b" and "shape b = [Suc D, 1]"
    and "elem b [0, 0] = 1 - sum_list xi" and "\<forall>j<D. elem b [Suc j, 0] = xi ! j"
    and "D = 1 \<and> V 1 0 \<noteq> V 0 0
       \<or> D = 2 \<and> (V 1 0 - V 0 0) * (V 2 1 - V 0 1) - (V 2 0 - V 0 0) * (V 1 1 - V 0 1) \<noteq> 0"
  shows "\<exists>g x hosts. eval rm \<lparr>shape = [D, 1], flat = xi\<rparr> 0 None = Inr g
          \<and> np_getitem g [Idx (int e)] = Inr x
          \<and> np_take cells \<lparr>shape = [1], flat = [int e]\<rparr> 0 = Inr hosts
          \<and> eval_inverse rm (np_T x) hosts = Inr \<lparr>shape = [D, 1], flat = xi\<rparr>"
proof -
  from assms(15) consider
      (one) "D = 1" "V 1 0 \<noteq> V 0 0"
    | (two) "D = 2" "(V 1 0 - V 0 0) * (V 2 1 - V 0 1) - (V 2 0 - V 0 0) * (V 1 1 - V 0 1) \<noteq> 0"
    by blast
  then show ?thesis
  proof cases
    case one
    with assms(4) obtain a where xi: "xi = [a]"
      by (cases xi) auto
    have b: "shape b = [2, 1]" "elem b [0, 0] = 1 - a" "elem b [1, 0] = a"
      using assms(12-14) one(1) xi by simp_all
    from round_trip_1d [of rm nN cells nE e a b] one assms(2,3,5-11) b
    show ?thesis unfolding xi V_def by simp
  next
    case two
    with assms(4) obtain a c where xi: "xi = [a, c]"
      by (cases xi; cases "tl xi") auto
    have b: "shape b = [3, 1]" "elem b [0, 0] = 1 - (a + c)" "elem b [1, 0] = a" "elem b [2, 0] = c"
      using assms(12-14) two(1) xi by (simp_all add: all_less_2 numeral_2_eq_2)
    have c: "shape cells = [nE, 3]"
      using assms(8) two(1) by simp
    from round_trip_2d [of rm nN cells nE e a c b] two assms(2,3,5-7,9-11) b c
    show ?thesis unfolding xi V_def by simp
  qed
qed

theorem affine_round_trip_witness:
  "order (shape_elem (ReferenceMap mesh2d)) = 1 \<and> dimension (mesh (ReferenceMap mesh2d)) = 2
   \<and> get_entities (mesh (ReferenceMap mesh2d)) 2 = Inr \<lparr>shape = [2, 3], flat = [1, 2, 3, 2, 4, 3]\<rparr>
   \<and> eval_basis (shape_elem (ReferenceMap mesh2d)) \<lparr>shape = [2, 1], flat = [1 / 2, 1 / 4]\<rparr> 0
       = Inr \<lparr>shape = [3, 1], flat = [1 / 4, 1 / 2, 1 / 4]\<rparr>
   \<and> (\<exists>g x hosts. eval (ReferenceMap mesh2d) \<lparr>shape = [2, 1], flat = [1 / 2, 1 / 4]\<rparr> 0 None = Inr g
          \<and> np_getitem g [Idx (int 1)] = Inr x
          \<and> np_take \<lparr>shape = [2, 3], flat = [1, 2, 3, 2, 4, 3]\<rparr> \<lparr>shape = [1], flat = [int 1]\<rparr> 0 = Inr hosts
          \<and> eval_inverse (ReferenceMap mesh2d) (np_T x) hosts = Inr \<lparr>shape = [2, 1], flat = [1 / 2, 1 / 4]\<rparr>)"
proof -
  let ?rm = "ReferenceMap mesh2d"
  let ?c = "\<lparr>shape = [2, 3], flat = [1, 2, 3, 2, 4, 3 :: int]\<rparr>"
  let ?b = "\<lparr>shape = [3, 1], flat = [1 / 4, 1 / 2, 1 / 4 :: real]\<rparr>"
  have h0: "order (shape_elem ?rm) = 1" by (simp add: ReferenceMap_def P1_def)
  have h1: "dimension (mesh ?rm) = 2" by (simp add: ReferenceMap_def mesh2d_def)
  have h2: "length [1 / 2, 1 / 4 :: real] = 2" by simp
  have h3: "shape (nodes (mesh ?rm)) = [4, 2]" by (simp add: ReferenceMap_def mesh2d_def)
  have h4: "get_entities (mesh ?rm) 2 = Inr ?c" by (simp add: ReferenceMap_def mesh2d_def)
  have h5: "wf_nd ?c" by (simp add: wf_nd_def)
  have h6: "shape ?c = [2, Suc 2]" by simp
  have h7: "set (flat ?c) \<subseteq> {1..int 4}" by simp
  have h8: "(1 :: nat) < 2" by simp
  have b1: "eval_basis (shape_elem ?rm) \<lparr>shape = [2, 1], flat = [1 / 2, 1 / 4]\<rparr> 0 = Inr ?b"
    by code_simp
  have b2: "shape ?b = [Suc 2, 1]" by simp
  have b3: "elem ?b [0, 0] = 1 - sum_list [1 / 2, 1 / 4]" by (simp add: elem_literal)
  have b4: "\<forall>j<2. elem ?b [Suc j, 0] = [1 / 2, 1 / 4] ! j"
    unfolding all_less_2 by (simp add: elem_literal)
  have n: "nodes (mesh ?rm) = \<lparr>shape = [4, 2], flat = [0, 0, 2, 0, 0, 3, 2, 3]\<rparr>"
    by (simp add: ReferenceMap_def mesh2d_def)
  have h9: "(2 :: nat) = 1 \<and> elem (nodes (mesh ?rm)) [nat (elem ?c [1, 1] - 1), 0]
                              \<noteq> elem (nodes (mesh ?rm)) [nat (elem ?c [1, 0] - 1), 0]
     \<or> (2 :: nat) = 2
       \<and> (elem (nodes (mesh ?rm)) [nat (elem ?c [1, 1] - 1), 0] - elem (nodes (mesh ?rm)) [nat (elem ?c [1, 0] - 1), 0])
          * (elem (nodes (mesh ?rm)) [nat (elem ?c [1, 2] - 1), 1] - elem (nodes (mesh ?rm)) [nat (elem ?c [1, 0] - 1), 1])
        - (elem (nodes (mesh ?rm)) [nat (elem ?c [1, 2] - 1), 0] - elem (nodes (mesh ?rm)) [nat (elem ?c [1, 0] - 1), 0])
          * (elem (nodes (mesh ?rm)) [nat (elem ?c [1, 1] - 1), 1] - elem (nodes (mesh ?rm)) [nat (elem ?c [1, 0] - 1), 1])
         \<noteq> 0"
    by (simp add: n elem_literal)
  note r = affine_round_trip [OF h0 h1 h2 h3 h4 h5 h6 h7 h8 b1 b2 b3 b4 h9]
  show ?thesis
    by (intro conjI) (rule h0 h1 h4 b1 r)+
qed

subsection \<open>Determinants of the Jacobians\<close>

lemma trailing2_rank4 [simp]: "trailing2 [a, b, c, d] = [c, d]"
  by (simp add: trailing2_def)

lemma det_square:
  assumes "shape jacs = [nE, nP, n, n]"
  shows "\<exists>r. np_linalg_det jacs = Inr r \<and> shape r = [nE, nP]
           \<and> (\<forall>e<nE. \<forall>p<nP. elem r [e, p] = det n (\<lambda>i j. elem jacs [e, p, i, j]))"
  using assms by (simp add: np_linalg_det_def Let_def block_def)

lemma det_curve:
  assumes "shape jacs = [nE, nP, 2, 1]"
  shows "\<exists>r. bind_result (np_getitem jacs [Ellipsis, Idx 0]) (\<lambda>col.
         bind_result (np_sum (nd_map (\<lambda>x. x ^ 2) col) 2) (\<lambda>s.
           Inr (nd_map sqrt s))) = Inr r \<and> shape r = [nE, nP]
           \<and> (\<forall>e<nE. \<forall>p<nP. elem r [e, p] = sqrt ((elem jacs [e, p, 0, 0])\<^sup>2 + (elem jacs [e, p, 1, 0])\<^sup>2))"
  using assms
  by (simp add: np_getitem_def np_sum_def index_ok_def wrap_index_def elem_nd_map numeral_3_eq_3
      sum_list_upt_2)

lemma getitem_entry:
  assumes "shape jacs = [nE, nP, r, c]" "i < r" "j < c"
  shows "\<exists>x. np_getitem jacs [Ellipsis, Idx (int i), Idx (int j)] = Inr x \<and> shape x = [nE, nP] \<and> wf_nd x
           \<and> (\<forall>e<nE. \<forall>p<nP. elem x [e, p] = elem jacs [e, p, i, j])"
  using assms by (simp add: np_getitem_def index_ok_def wrap_index_def numeral_2_eq_2)

lemma binop_same:
  assumes "shape a = [m, n]" "shape b = [m, n]"
  shows "\<exists>x. np_multiply a b = Inr x \<and> shape x = [m, n] \<and> wf_nd x
           \<and> (\<forall>k<m. \<forall>d<n. elem x [k, d] = elem a [k, d] * elem b [k, d])"
    and "\<exists>x. np_add a b = Inr x \<and> shape x = [m, n] \<and> wf_nd x
           \<and> (\<forall>k<m. \<forall>d<n. elem x [k, d] = elem a [k, d] + elem b [k, d])"
  using assms
  by (simp_all add: np_multiply_def np_add_def broadcast2_def broadcast_shapes_def bsource_def)

text \<open>One component of the cross product of the columns: \<open>J[..., i, 0] * J[..., j, 1] - J[..., k, 0] * J[..., l, 1]\<close>.\<close>

lemma cross_component:
  assumes "shape jacs = [nE, nP, 3, 2]" "i < 3" "j < 3" "k < 3" "l < 3"
  shows "\<exists>x. bind_result (np_getitem jacs [Ellipsis, Idx (int i), Idx 0]) (\<lambda>a.
         bind_result (np_getitem jacs [Ellipsis, Idx (int j), Idx 1]) (\<lambda>b.
         bind_result (np_multiply a b) (\<lambda>ab.
         bind_result (np_getitem jacs [Ellipsis, Idx (int k), Idx 0]) (\<lambda>c.
         bind_result (np_getitem jacs [Ellipsis, Idx (int l), Idx 1]) (\<lambda>d.
         bind_result (np_multiply c d) (\<lambda>cd.
         bind_result (np_subtract ab cd) f)))))) = f x
       \<and> shape x = [nE, nP] \<and> wf_nd x
       \<and> (\<forall>e<nE. \<forall>p<nP. elem x [e, p]
             = elem jacs [e, p, i, 0] * elem jacs [e, p, j, 1] - elem jacs [e, p, k, 0] * elem jacs [e, p, l, 1])"
proof -
  from getitem_entry [OF assms(1,2), of 0]
  obtain a where a: "np_getitem jacs [Ellipsis, Idx (int i), Idx 0] = Inr a" "shape a = [nE, nP]"
    "\<forall>e<nE. \<forall>p<nP. elem a [e, p] = elem jacs [e, p, i, 0]" by auto
  from getitem_entry [OF assms(1,3), of 1]
  obtain b where b: "np_getitem jacs [Ellipsis, Idx (int j), Idx 1] = Inr b" "shape b = [nE, nP]"
    "\<forall>e<nE. \<forall>p<nP. elem b [e, p] = elem jacs [e, p, j, 1]" by auto
  from getitem_entry [OF assms(1,4), of 0]
  obtain c where c: "np_getitem jacs [Ellipsis, Idx (int k), Idx 0] = Inr c" "shape c = [nE, nP]"
    "\<forall>e<nE. \<forall>p<nP. elem c [e, p] = elem jacs [e, p, k, 0]" by auto
  from getitem_entry [OF assms(1,5), of 1]
  obtain d where d: "np_getitem jacs [Ellipsis, Idx (int l), Idx 1] = Inr d" "shape d = [nE, nP]"
    "\<forall>e<nE. \<forall>p<nP. elem d [e, p] = elem jacs [e, p, l, 1]" by auto
  from binop_same(1) [OF a(2) b(2)]
  obtain ab where ab: "np_multiply a b = Inr ab" "shape ab = [nE, nP]"
    "\<forall>e<nE. \<forall>p<nP. elem ab [e, p] = elem a [e, p] * elem b [e, p]" by blast
  from binop_same(1) [OF c(2) d(2)]
  obtain cd where cd: "np_multiply c d = Inr cd" "shape cd = [nE, nP]"
    "\<forall>e<nE. \<forall>p<nP. elem cd [e, p] = elem c [e, p] * elem d [e, p]" by blast
  from subtract_rows [OF ab(2) cd(2)]
  obtain x where x: "np_subtract ab cd = Inr x" "shape x = [nE, nP]" "wf_nd x"
    "\<forall>e<nE. \<forall>p<nP. elem x [e, p] = elem ab [e, p] - elem cd [e, p]" by blast
  have "\<forall>e<nE. \<forall>p<nP. elem x [e, p]
             = elem jacs [e, p, i, 0] * elem jacs [e, p, j, 1] - elem jacs [e, p, k, 0] * elem jacs [e, p, l, 1]"
    using x(4) ab(3) cd(3) a(3) b(3) c(3) d(3) by simp
  moreover have "bind_result (np_getitem jacs [Ellipsis, Idx (int i), Idx 0]) (\<lambda>a.
         bind_result (np_getitem jacs [Ellipsis, Idx (int j), Idx 1]) (\<lambda>b.
         bind_result (np_multiply a b) (\<lambda>ab.
         bind_result (np_getitem jacs [Ellipsis, Idx (int k), Idx 0]) (\<lambda>c.
         bind_result (np_getitem jacs [Ellipsis, Idx (int l), Idx 1]) (\<lambda>d.
         bind_result (np_multiply c d) (\<lambda>cd.
         bind_result (np_subtract ab cd) f)))))) = f x"
    using a(1) b(1) c(1) d(1) ab(1) cd(1) x(1) by simp
  ultimately show ?thesis using x(2,3) by blast
qed

lemma det_surface:
  assumes "shape jacs = [nE, nP, 3, 2]"
  shows "\<exists>r. bind_result (np_getitem jacs [Ellipsis, Idx 1, Idx 0]) (\<lambda>j10.
         bind_result (np_getitem jacs [Ellipsis, Idx 2, Idx 1]) (\<lambda>j21.
         bind_result (np_multiply j10 j21) (\<lambda>a0.
         bind_result (np_getitem jacs [Ellipsis, Idx 2, Idx 0]) (\<lambda>j20.
         bind_result (np_getitem jacs [Ellipsis, Idx 1, Idx 1]) (\<lambda>j11.
         bind_result (np_multiply j20 j11) (\<lambda>b0.
         bind_result (np_subtract a0 b0) (\<lambda>d0.
         bind_result (np_getitem jacs [Ellipsis, Idx 2, Idx 0]) (\<lambda>k20.
         bind_result (np_getitem jacs [Ellipsis, Idx 0, Idx 1]) (\<lambda>k01.
         bind_result (np_multiply k20 k01) (\<lambda>a1.
         bind_result (np_getitem jacs [Ellipsis, Idx 0, Idx 0]) (\<lambda>k00.
         bind_result (np_getitem jacs [Ellipsis, Idx 2, Idx 1]) (\<lambda>k21.
         bind_result (np_multiply k00 k21) (\<lambda>b1.
         bind_result (np_subtract a1 b1) (\<lambda>d1.
         bind_result (np_getitem jacs [Ellipsis, Idx 0, Idx 0]) (\<lambda>l00.
         bind_result (np_getitem jacs [Ellipsis, Idx 1, Idx 1]) (\<lambda>l11.
         bind_result (np_multiply l00 l11) (\<lambda>a2.
         bind_result (np_getitem jacs [Ellipsis, Idx 1, Idx 0]) (\<lambda>l10.
         bind_result (np_getitem jacs [Ellipsis, Idx 0, Idx 1]) (\<lambda>l01.
         bind_result (np_multiply l10 l01) (\<lambda>b2.
         bind_result (np_subtract a2 b2) (\<lambda>d2.
         bind_result (np_add (nd_map (\<lambda>x. x ^ 2) d0) (nd_map (\<lambda>x. x ^ 2) d1)) (\<lambda>s01.
         bind_result (np_add s01 (nd_map (\<lambda>x. x ^ 2) d2)) (\<lambda>s.
           Inr (nd_map sqrt s)))))))))))))))))))))))) = Inr r
      \<and> shape r = [nE, nP]
      \<and> (\<forall>e<nE. \<forall>p<nP. elem r [e, p]
            = sqrt ((elem jacs [e, p, 1, 0] * elem jacs [e, p, 2, 1] - elem jacs [e, p, 2, 0] * elem jacs [e, p, 1, 1]) ^ 2
                  + (elem jacs [e, p, 2, 0] * elem jacs [e, p, 0, 1] - elem jacs [e, p, 0, 0] * elem jacs [e, p, 2, 1]) ^ 2
                  + (elem jacs [e, p, 0, 0] * elem jacs [e, p, 1, 1] - elem jacs [e, p, 1, 0] * elem jacs [e, p, 0, 1]) ^ 2))"
    (is "\<exists>r. ?chain = Inr r \<and> _ \<and> _")
proof -
  let ?tail = "\<lambda>d0 d1 d2.
         bind_result (np_add (nd_map (\<lambda>x. x ^ 2) d0) (nd_map (\<lambda>x. x ^ 2) d1)) (\<lambda>s01.
         bind_result (np_add s01 (nd_map (\<lambda>x. x ^ 2) d2)) (\<lambda>s.
           Inr (nd_map sqrt s)))"
  let ?third = "\<lambda>d0 d1.
         bind_result (np_getitem jacs [Ellipsis, Idx 0, Idx 0]) (\<lambda>l00.
         bind_result (np_getitem jacs [Ellipsis, Idx 1, Idx 1]) (\<lambda>l11.
         bind_result (np_multiply l00 l11) (\<lambda>a2.
         bind_result (np_getitem jacs [Ellipsis, Idx 1, Idx 0]) (\<lambda>l10.
         bind_result (np_getitem jacs [Ellipsis, Idx 0, Idx 1]) (\<lambda>l01.
         bind_result (np_multiply l10 l01) (\<lambda>b2.
         bind_result (np_subtract a2 b2) (?tail d0 d1)))))))"
  let ?second = "\<lambda>d0.
         bind_result (np_getitem jacs [Ellipsis, Idx 2, Idx 0]) (\<lambda>k20.
         bind_result (np_getitem jacs [Ellipsis, Idx 0, Idx 1]) (\<lambda>k01.
         bind_result (np_multiply k20 k01) (\<lambda>a1.
         bind_result (np_getitem jacs [Ellipsis, Idx 0, Idx 0]) (\<lambda>k00.
         bind_result (np_getitem jacs [Ellipsis, Idx 2, Idx 1]) (\<lambda>k21.
         bind_result (np_multiply k00 k21) (\<lambda>b1.
         bind_result (np_subtract a1 b1) (?third d0)))))))"
  from cross_component [OF assms, of 1 2 2 1 ?second]
  obtain d0 where d0: "?chain = ?second d0" "shape d0 = [nE, nP]" "wf_nd d0"
    "\<forall>e<nE. \<forall>p<nP. elem d0 [e, p]
       = elem jacs [e, p, 1, 0] * elem jacs [e, p, 2, 1] - elem jacs [e, p, 2, 0] * elem jacs [e, p, 1, 1]"
    by auto
  from cross_component [OF assms, of 2 0 0 2 "?third d0"]
  obtain d1 where d1: "?second d0 = ?third d0 d1" "shape d1 = [nE, nP]" "wf_nd d1"
    "\<forall>e<nE. \<forall>p<nP. elem d1 [e, p]
       = elem jacs [e, p, 2, 0] * elem jacs [e, p, 0, 1] - elem jacs [e, p, 0, 0] * elem jacs [e, p, 2, 1]"
    by auto
  from cross_component [OF assms, of 0 1 1 0 "?tail d0 d1"]
  obtain d2 where d2: "?third d0 d1 = ?tail d0 d1 d2" "shape d2 = [nE, nP]" "wf_nd d2"
    "\<forall>e<nE. \<forall>p<nP. elem d2 [e, p]
       = elem jacs [e, p, 0, 0] * elem jacs [e, p, 1, 1] - elem jacs [e, p, 1, 0] * elem jacs [e, p, 0, 1]"
    by auto
  from binop_same(2) [of "nd_map (\<lambda>x. x ^ 2) d0" nE nP "nd_map (\<lambda>x. x ^ 2) d1"] d0(2) d1(2)
  obtain s01 where s01: "np_add (nd_map (\<lambda>x. x ^ 2) d0) (nd_map (\<lambda>x. x ^ 2) d1) = Inr s01"
    "shape s01 = [nE, nP]" "wf_nd s01"
    "\<forall>e<nE. \<forall>p<nP. elem s01 [e, p] = elem (nd_map (\<lambda>x. x ^ 2) d0) [e, p] + elem (nd_map (\<lambda>x. x ^ 2) d1) [e, p]"
    by auto
  from binop_same(2) [of s01 nE nP "nd_map (\<lambda>x. x ^ 2) d2"] s01(2) d2(2)
  obtain s where s: "np_add s01 (nd_map (\<lambda>x. x ^ 2) d2) = Inr s"
    "shape s = [nE, nP]" "wf_nd s"
    "\<forall>e<nE. \<forall>p<nP. elem s [e, p] = elem s01 [e, p] + elem (nd_map (\<lambda>x. x ^ 2) d2) [e, p]"
    by auto
  have "?chain = Inr (nd_map sqrt s)"
    using d0(1) d1(1) d2(1) s01(1) s(1) by simp
  moreover have "shape (nd_map sqrt s) = [nE, nP]" using s(2) by simp
  moreover have "elem (nd_map sqrt s) [e, p]
            = sqrt ((elem jacs [e, p, 1, 0] * elem jacs [e, p, 2, 1] - elem jacs [e, p, 2, 0] * elem jacs [e, p, 1, 1]) ^ 2
                  + (elem jacs [e, p, 2, 0] * elem jacs [e, p, 0, 1] - elem jacs [e, p, 0, 0] * elem jacs [e, p, 2, 1]) ^ 2
                  + (elem jacs [e, p, 0, 0] * elem jacs [e, p, 1, 1] - elem jacs [e, p, 1, 0] * elem jacs [e, p, 0, 1]) ^ 2)"
    if "e < nE" "p < nP" for e p
    using that s(2,3,4) s01(4) d0(2,3,4) d1(2,3,4) d2(2,3,4) by (simp add: elem_nd_map)
  ultimately show ?thesis by blast
qed

text \<open>
  C4: \<open>jacobian_determinant\<close> chooses its formula by the last two axes of the Jacobians
  that \<open>eval\<close> returns. For the square shapes (1,1), (2,2), (3,3) it returns the
  determinant of each Jacobian; for (2,1) the square root of the sum of the squares of
  the single column; for (3,2) the length of the cross product of the two columns
  \<open>a\<close> and \<open>b\<close>, whose components are \<open>a1 b2 - a2 b1\<close>, \<open>a2 b0 - a0 b2\<close> and
  \<open>a0 b1 - a1 b0\<close>; for every other shape, such as (4,4), it raises the
  NotImplementedError for an unsupported shape of the Jacobians.
\<close>

theorem jacobian_determinant_dispatch:
  fixes jacs :: "real ndarray"
  defines "J \<equiv> \<lambda>e p i j. elem jacs [e, p, i, j]"
  assumes "eval rm points 1 msk = Inr jacs"
  shows "(shape jacs = [nE, nP, 1, 1] \<longrightarrow>
            (\<exists>r. jacobian_determinant rm points msk = Inr r \<and> shape r = [nE, nP]
               \<and> (\<forall>e<nE. \<forall>p<nP. elem r [e, p] = J e p 0 0)))
       \<and> (shape jacs = [nE, nP, 2, 2] \<longrightarrow>
            (\<exists>r. jacobian_determinant rm points msk = Inr r \<and> shape r = [nE, nP]
               \<and> (\<forall>e<nE. \<forall>p<nP. elem r [e, p] = J e p 0 0 * J e p 1 1 - J e p 0 1 * J e p 1 0)))
       \<and> (shape jacs = [nE, nP, 3, 3] \<longrightarrow>
            (\<exists>r. jacobian_determinant rm points msk = Inr r \<and> shape r = [nE, nP]
               \<and> (\<forall>e<nE. \<forall>p<nP. elem r [e, p]
                     = J e p 0 0 * (J e p 1 1 * J e p 2 2 - J e p 1 2 * J e p 2 1)
                     - J e p 0 1 * (J e p 1 0 * J e p 2 2 - J e p 1 2 * J e p 2 0)
                     + J e p 0 2 * (J e p 1 0 * J e p 2 1 - J e p 1 1 * J e p 2 0))))
       \<and> (shape jacs = [nE, nP, 2, 1] \<longrightarrow>
            (\<exists>r. jacobian_determinant rm points msk = Inr r \<and> shape r = [nE, nP]
               \<and> (\<forall>e<nE. \<forall>p<nP. elem r [e, p] = sqrt ((J e p 0 0) ^ 2 + (J e p 1 0) ^ 2))))
       \<and> (shape jacs = [nE, nP, 3, 2] \<longrightarrow>
            (\<exists>r. jacobian_determinant rm points msk = Inr r \<and> shape r = [nE, nP]
               \<and> (\<forall>e<nE. \<forall>p<nP. elem r [e, p]
                     = sqrt ((J e p 1 0 * J e p 2 1 - J e p 2 0 * J e p 1 1) ^ 2
                           + (J e p 2 0 * J e p 0 1 - J e p 0 0 * J e p 2 1) ^ 2
                           + (J e p 0 0 * J e p 1 1 - J e p 1 0 * J e p 0 1) ^ 2))))
       \<and> (trailing2 (shape jacs) \<notin> {[1, 1], [2, 2], [3, 3], [2, 1], [3, 2]} \<longrightarrow>
            jacobian_determinant rm points msk
              = Inl (NotImplementedError ''Unsupported shape of jacobians! ({})''))"
proof (intro conjI impI)
  assume s: "shape jacs = [nE, nP, 1, 1]"
  from det_square [OF s] show "\<exists>r. jacobian_determinant rm points msk = Inr r \<and> shape r = [nE, nP]
               \<and> (\<forall>e<nE. \<forall>p<nP. elem r [e, p] = J e p 0 0)"
    using assms(2) s by (simp add: jacobian_determinant_def J_def)
next
  assume s: "shape jacs = [nE, nP, 2, 2]"
  from det_square [OF s] show "\<exists>r. jacobian_determinant rm points msk = Inr r \<and> shape r = [nE, nP]
               \<and> (\<forall>e<nE. \<forall>p<nP. elem r [e, p] = J e p 0 0 * J e p 1 1 - J e p 0 1 * J e p 1 0)"
    using assms(2) s by (simp add: jacobian_determinant_def J_def det_2)
next
  assume s: "shape jacs = [nE, nP, 3, 3]"
  from det_square [OF s] show "\<exists>r. jacobian_determinant rm points msk = Inr r \<and> shape r = [nE, nP]
               \<and> (\<forall>e<nE. \<forall>p<nP. elem r [e, p]
                     = J e p 0 0 * (J e p 1 1 * J e p 2 2 - J e p 1 2 * J e p 2 1)
                     - J e p 0 1 * (J e p 1 0 * J e p 2 2 - J e p 1 2 * J e p 2 0)
                     + J e p 0 2 * (J e p 1 0 * J e p 2 1 - J e p 1 1 * J e p 2 0))"
    unfolding det_3 using assms(2) s by (simp add: jacobian_determinant_def J_def)
next
  assume s: "shape jacs = [nE, nP, 2, 1]"
  from det_curve [OF s] show "\<exists>r. jacobian_determinant rm points msk = Inr r \<and> shape r = [nE, nP]
               \<and> (\<forall>e<nE. \<forall>p<nP. elem r [e, p] = sqrt ((J e p 0 0) ^ 2 + (J e p 1 0) ^ 2))"
    using assms(2) s by (simp add: jacobian_determinant_def J_def)
next
  assume s: "shape jacs = [nE, nP, 3, 2]"
  from det_surface [OF s] show "\<exists>r. jacobian_determinant rm points msk = Inr r \<and> shape r = [nE, nP]
               \<and> (\<forall>e<nE. \<forall>p<nP. elem r [e, p]
                     = sqrt ((J e p 1 0 * J e p 2 1 - J e p 2 0 * J e p 1 1) ^ 2
                           + (J e p 2 0 * J e p 0 1 - J e p 0 0 * J e p 2 1) ^ 2
                           + (J e p 0 0 * J e p 1 1 - J e p 1 0 * J e p 0 1) ^ 2))"
    using assms(2) s by (simp add: jacobian_determinant_def J_def)
next
  assume "trailing2 (shape jacs) \<notin> {[1, 1], [2, 2], [3, 3], [2, 1], [3, 2]}"
  then show "jacobian_determinant rm points msk
              = Inl (NotImplementedError ''Unsupported shape of jacobians! ({})'')"
    using assms(2) by (simp add: jacobian_determinant_def)
qed

theorem jacobian_determinant_dispatch_witness:
  "(\<exists>r. jacobian_determinant (ReferenceMap mesh2d) \<lparr>shape = [1, 1], flat = [1 / 2]\<rparr> None = Inr r
        \<and> shape r = [5, 1] \<and> elem r [0, 0] = 2 \<and> elem r [2, 0] = sqrt 13)
   \<and> (\<exists>r. jacobian_determinant (ReferenceMap mesh2d) \<lparr>shape = [2, 1], flat = [1 / 4, 1 / 4]\<rparr> None = Inr r
        \<and> shape r = [2, 1] \<and> elem r [0, 0] = 6 \<and> elem r [1, 0] = 6)
   \<and> (\<exists>r. jacobian_determinant (ReferenceMap triangle3d) \<lparr>shape = [2, 1], flat = [1 / 4, 1 / 4]\<rparr> None = Inr r
        \<and> shape r = [1, 1] \<and> elem r [0, 0] = 1)
   \<and> jacobian_determinant (ReferenceMap segment3d) \<lparr>shape = [1, 1], flat = [1 / 2]\<rparr> None
        = Inl (NotImplementedError ''Unsupported shape of jacobians! ({})'')"
proof -
  let ?p1 = "\<lparr>shape = [1, 1], flat = [1 / 2 :: real]\<rparr>"
  let ?p2 = "\<lparr>shape = [2, 1], flat = [1 / 4, 1 / 4 :: real]\<rparr>"
  let ?ja = "\<lparr>shape = [5, 1, 2, 1], flat = [2, 0, 0, 3, - 2, 3, 0, 3, 2, 0 :: real]\<rparr>"
  let ?jb = "\<lparr>shape = [2, 1, 2, 2], flat = [2, 0, 0, 3, 0, - 2, 3, 3 :: real]\<rparr>"
  let ?jc = "\<lparr>shape = [1, 1, 3, 2], flat = [1, 0, 0, 1, 0, 0 :: real]\<rparr>"
  let ?jd = "\<lparr>shape = [1, 1, 3, 1], flat = [1, 2, 2 :: real]\<rparr>"
  have a: "eval (ReferenceMap mesh2d) ?p1 1 None = Inr ?ja" by code_simp
  have b: "eval (ReferenceMap mesh2d) ?p2 1 None = Inr ?jb" by code_simp
  have c: "eval (ReferenceMap triangle3d) ?p2 1 None = Inr ?jc" by code_simp
  have d: "eval (ReferenceMap segment3d) ?p1 1 None = Inr ?jd" by code_simp
  from jacobian_determinant_dispatch [OF a, of 5 1]
  have "\<exists>r. jacobian_determinant (ReferenceMap mesh2d) ?p1 None = Inr r \<and> shape r = [5, 1]
          \<and> (\<forall>e<5. \<forall>p<1. elem r [e, p] = sqrt ((elem ?ja [e, p, 0, 0]) ^ 2 + (elem ?ja [e, p, 1, 0]) ^ 2))"
    by simp
  then obtain ra where ra: "jacobian_determinant (ReferenceMap mesh2d) ?p1 None = Inr ra" "shape ra = [5, 1]"
    "\<forall>e<5. \<forall>p<1. elem ra [e, p] = sqrt ((elem ?ja [e, p, 0, 0]) ^ 2 + (elem ?ja [e, p, 1, 0]) ^ 2)"
    by blast
  from ra(3) have "elem ra [0, 0] = 2" "elem ra [2, 0] = sqrt 13"
    by (simp_all add: elem_literal)
  with ra(1,2) have A: "\<exists>r. jacobian_determinant (ReferenceMap mesh2d) ?p1 None = Inr r
        \<and> shape r = [5, 1] \<and> elem r [0, 0] = 2 \<and> elem r [2, 0] = sqrt 13"
    by blast
  from jacobian_determinant_dispatch [OF b, of 2 1]
  have "\<exists>r. jacobian_determinant (ReferenceMap mesh2d) ?p2 None = Inr r \<and> shape r = [2, 1]
          \<and> (\<forall>e<2. \<forall>p<1. elem r [e, p] = elem ?jb [e, p, 0, 0] * elem ?jb [e, p, 1, 1] - elem ?jb [e, p, 0, 1] * elem ?jb [e, p, 1, 0])"
    by simp
  then obtain rb where rb: "jacobian_determinant (ReferenceMap mesh2d) ?p2 None = Inr rb" "shape rb = [2, 1]"
    "\<forall>e<2. \<forall>p<1. elem rb [e, p] = elem ?jb [e, p, 0, 0] * elem ?jb [e, p, 1, 1] - elem ?jb [e, p, 0, 1] * elem ?jb [e, p, 1, 0]"
    by blast
  from rb(3) have "elem rb [0, 0] = 6" "elem rb [1, 0] = 6"
    by (simp_all add: elem_literal)
  with rb(1,2) have B: "\<exists>r. jacobian_determinant (ReferenceMap mesh2d) ?p2 None = Inr r
        \<and> shape r = [2, 1] \<and> elem r [0, 0] = 6 \<and> elem r [1, 0] = 6"
    by blast
  from jacobian_determinant_dispatch [OF c, of 1 1]
  have "\<exists>r. jacobian_determinant (ReferenceMap triangle3d) ?p2 None = Inr r \<and> shape r = [1, 1]
          \<and> (\<forall>e<1. \<forall>p<1. elem r [e, p]
                = sqrt ((elem ?jc [e, p, 1, 0] * elem ?jc [e, p, 2, 1] - elem ?jc [e, p, 2, 0] * elem ?jc [e, p, 1, 1]) ^ 2
                      + (elem ?jc [e, p, 2, 0] * elem ?jc [e, p, 0, 1] - elem ?jc [e, p, 0, 0] * elem ?jc [e, p, 2, 1]) ^ 2
                      + (elem ?jc [e, p, 0, 0] * elem ?jc [e, p, 1, 1] - elem ?jc [e, p, 1, 0] * elem ?jc [e, p, 0, 1]) ^ 2))"
    by simp
  then obtain rc where rc: "jacobian_determinant (ReferenceMap triangle3d) ?p2 None = Inr rc" "shape rc = [1, 1]"
    "\<forall>e<1. \<forall>p<1. elem rc [e, p]
                = sqrt ((elem ?jc [e, p, 1, 0] * elem ?jc [e, p, 2, 1] - elem ?jc [e, p, 2, 0] * elem ?jc [e, p, 1, 1]) ^ 2
                      + (elem ?jc [e, p, 2, 0] * elem ?jc [e, p, 0, 1] - elem ?jc [e, p, 0, 0] * elem ?jc [e, p, 2, 1]) ^ 2
                      + (elem ?jc [e, p, 0, 0] * elem ?jc [e, p, 1, 1] - elem ?jc [e, p, 1, 0] * elem ?jc [e, p, 0, 1]) ^ 2)"
    by blast
  from rc(3) have "elem rc [0, 0] = 1"
    by (simp add: elem_literal)
  with rc(1,2) have C: "\<exists>r. jacobian_determinant (ReferenceMap triangle3d) ?p2 None = Inr r
        \<and> shape r = [1, 1] \<and> elem r [0, 0] = 1"
    by blast
  from jacobian_determinant_dispatch [OF d, of 1 1]
  have D: "jacobian_determinant (ReferenceMap segment3d) ?p1 None
        = Inl (NotImplementedError ''Unsupported shape of jacobians! ({})'')"
    by (simp add: trailing2_def)
  from A B C D show ?thesis by blast
qed

subsection \<open>Inverses of the Jacobians\<close>

text \<open>
  The inverse that \<open>np_linalg_inv\<close> computes, the adjugate divided by the determinant,
  is a right inverse of every matrix of size 1, 2 or 3 with a non-zero determinant.
\<close>

lemma adjugate_inverse_1:
  assumes "det 1 m \<noteq> 0" "i < 1" "j < 1"
  shows "sum_list (map (\<lambda>k. m i k * ((- 1) ^ (k + j) * det (1 - 1) (minor m j k) / det 1 m)) [0..<1])
           = (if i = j then 1 else 0)"
  using assms by simp

lemma adjugate_inverse_2:
  assumes "det 2 m \<noteq> 0" "i < 2" "j < 2"
  shows "sum_list (map (\<lambda>k. m i k * ((- 1) ^ (k + j) * det (2 - 1) (minor m j k) / det 2 m)) [0..<2])
           = (if i = j then 1 else 0)"
proof -
  have ij: "(i = 0 \<or> i = 1) \<and> (j = 0 \<or> j = 1)" using assms(2,3) by auto
  have d: "m 0 0 * m 1 1 - m 0 1 * m 1 0 \<noteq> 0" using assms(1) by (simp add: det_2)
  show ?thesis
    using ij d
    by (auto simp: sum_list_upt_2 det_2 minor_def add_divide_distrib [symmetric] diff_divide_distrib [symmetric]
        algebra_simps)
qed

lemma cofactor_expansion_3:
  assumes "i < 3" "j < 3"
  shows "m i 0 * ((- 1) ^ (0 + j) * det 2 (minor m j 0))
       + m i 1 * ((- 1) ^ (1 + j) * det 2 (minor m j 1))
       + m i 2 * ((- 1) ^ (2 + j) * det 2 (minor m j 2))
       = (if i = j then det 3 m else 0)"
proof -
  have "(i = 0 \<or> i = 1 \<or> i = 2) \<and> (j = 0 \<or> j = 1 \<or> j = 2)" using assms by auto
  then show ?thesis
    by (elim conjE disjE) (simp_all add: det_3 det_2 minor_def numeral_2_eq_2 [symmetric] algebra_simps)
qed

lemma adjugate_inverse_3:
  assumes "det 3 m \<noteq> 0" "i < 3" "j < 3"
  shows "sum_list (map (\<lambda>k. m i k * ((- 1) ^ (k + j) * det (3 - 1) (minor m j k) / det 3 m)) [0..<3])
           = (if i = j then 1 else 0)"
proof -
  have "sum_list (map (\<lambda>k. m i k * ((- 1) ^ (k + j) * det (3 - 1) (minor m j k) / det 3 m)) [0..<3])
      = m i 0 * ((- 1) ^ (0 + j) * det 2 (minor m j 0)) / det 3 m
       + m i 1 * ((- 1) ^ (1 + j) * det 2 (minor m j 1)) / det 3 m
       + m i 2 * ((- 1) ^ (2 + j) * det 2 (minor m j 2)) / det 3 m"
    unfolding sum_list_upt_3 by simp
  also have "\<dots> = (m i 0 * ((- 1) ^ (0 + j) * det 2 (minor m j 0))
       + m i 1 * ((- 1) ^ (1 + j) * det 2 (minor m j 1))
       + m i 2 * ((- 1) ^ (2 + j) * det 2 (minor m j 2))) / det 3 m"
    by (simp only: add_divide_distrib)
  also have "\<dots> = (if i = j then det 3 m else 0) / det 3 m"
    by (simp only: cofactor_expansion_3 [OF assms(2,3)])
  also have "\<dots> = (if i = j then 1 else 0)"
    using assms(1) by simp
  finally show ?thesis .
qed

lemma adjugate_inverse:
  assumes "n = 1 \<or> n = 2 \<or> n = 3" "det n m \<noteq> 0" "i < n" "j < n"
  shows "sum_list (map (\<lambda>k. m i k * ((- 1) ^ (k + j) * det (n - 1) (minor m j k) / det n m)) [0..<n])
           = (if i = j then 1 else 0)"
  using assms(1)
proof (elim disjE)
  assume "n = 1"
  with assms(2-4) adjugate_inverse_1 [of m i j] show ?thesis by simp
next
  assume "n = 2"
  with assms(2-4) adjugate_inverse_2 [of m i j] show ?thesis by simp
next
  assume "n = 3"
  with assms(2-4) adjugate_inverse_3 [of m i j] show ?thesis by simp
qed

lemma inv_square:
  assumes "shape jacs = [nE, nP, n, n]"
    and "\<forall>e<nE. \<forall>p<nP. det n (\<lambda>i j. elem jacs [e, p, i, j]) \<noteq> 0"
  shows "\<exists>r. np_linalg_inv jacs = Inr r \<and> shape r = [nE, nP, n, n]
           \<and> (\<forall>e<nE. \<forall>p<nP. \<forall>k<n. \<forall>j<n. elem r [e, p, k, j]
                 = (- 1) ^ (k + j) * det (n - 1) (minor (\<lambda>i j. elem jacs [e, p, i, j]) j k)
                   / det n (\<lambda>i j. elem jacs [e, p, i, j]))"
proof -
  have "det n (block jacs (unravel [nE, nP] k)) \<noteq> 0" if "k < nE * nP" for k
  proof -
    from that have "in_bounds [nE, nP] (unravel [nE, nP] k)"
      by (intro in_bounds_unravel) simp
    then obtain e p where "unravel [nE, nP] k = [e, p]" "e < nE" "p < nP"
      by (auto simp: in_bounds2)
    with assms(2) show ?thesis by (simp add: block_def)
  qed
  then have "\<not> list_ex (\<lambda>k. det n (block jacs (unravel [nE, nP] k)) = 0) [0..<nE * nP]"
    by (simp add: list_ex_iff)
  then show ?thesis
    using assms(1) by (simp add: np_linalg_inv_def Let_def block_def)
qed

lemma bind_result_Inr: "bind_result r f = Inr y \<Longrightarrow> \<exists>x. r = Inr x \<and> f x = Inr y"
  by (cases r) simp_all

lemma np_sum_wf: "np_sum a ax = Inr r \<Longrightarrow> wf_nd r"
  by (auto simp: np_sum_def split: if_splits)

lemma np_getitem_wf: "np_getitem a its = Inr r \<Longrightarrow> wf_nd r"
  by (auto simp: np_getitem_def Let_def split: option.splits)

lemma contraction_wf:
  "bind_result (np_getitem c xs) (\<lambda>c. bind_result (np_getitem b ys) (\<lambda>b.
     bind_result (np_multiply c b) (\<lambda>prod. np_sum prod 1))) = Inr r \<Longrightarrow> wf_nd r"
  by (blast dest: bind_result_Inr np_sum_wf)

lemma eval_wf:
  assumes "eval rm points deriv msk = Inr r"
  shows "wf_nd r"
proof (cases "nd_size points = 0")
  case True
  with assms show ?thesis by (simp add: eval_def np_getitem_wf)
next
  case False
  with assms obtain dim basis vertices coords coords' where
    "(if deriv = 0 then
               bind_result (np_getitem coords' [Slice, Slice, NewAxis, Slice]) (\<lambda>c.
               bind_result (np_getitem basis [NewAxis, Slice, Slice, NewAxis]) (\<lambda>b.
               bind_result (np_multiply c b) (\<lambda>prod. np_sum prod 1)))
             else if deriv = 1 then
               bind_result (np_getitem coords' [Slice, Slice, NewAxis, Slice, NewAxis]) (\<lambda>c.
               bind_result (np_getitem basis [NewAxis, Slice, Slice, NewAxis, Slice]) (\<lambda>b.
               bind_result (np_multiply c b) (\<lambda>prod. np_sum prod 1)))
             else if deriv = 2 then
               bind_result (np_getitem coords' [Slice, Slice, NewAxis, Slice, NewAxis, NewAxis]) (\<lambda>c.
               bind_result (np_getitem basis [NewAxis, Slice, Slice, NewAxis, Slice, Slice]) (\<lambda>b.
               bind_result (np_multiply c b) (\<lambda>prod. np_sum prod 1)))
             else Inl (UnboundLocalError ''maps'')) = Inr r"
    unfolding eval_def by (auto dest!: bind_result_Inr)
  then show ?thesis
    by (auto split: if_splits dest: contraction_wf)
qed

text \<open>
  C5, as stated: \<open>jacobian_inverse\<close> returns the matrix inverse for the square shapes
  (D,D), D = 1, 2, 3; the elementwise reciprocal is used only in the scalar case; and
  every non-square shape whose last axis is not 1 raises the NotImplementedError. The
  second part fails: the scalar shape (1,1) is taken by the first branch, and the branch
  \<open>jacs.shape[-1] == 1\<close> serves the shapes (D,1) with D other than 1. For the segment
  from (0, 0) to (3, 4) the Jacobian is the column (3, 4), and the call returns the
  column (1/3, 1/4).
\<close>

theorem jacobian_inverse_reciprocal:
  "eval (ReferenceMap segment2d) \<lparr>shape = [1, 1], flat = [1 / 2]\<rparr> 1 None
     = Inr \<lparr>shape = [1, 1, 2, 1], flat = [3, 4]\<rparr>
   \<and> jacobian_inverse (ReferenceMap segment2d) \<lparr>shape = [1, 1], flat = [1 / 2]\<rparr> None
     = Inr \<lparr>shape = [1, 1, 2, 1], flat = [1 / 3, 1 / 4]\<rparr>"
  by code_simp

text \<open>
  C5, amended: on a tensor of Jacobians of square shape (D,D), D = 1, 2, 3, whose
  determinants are all different from zero, \<open>jacobian_inverse\<close> returns the inverse of
  each Jacobian (the product of a Jacobian and its result is the unit matrix); for
  every other shape whose last axis is 1, the shapes (D,1) of curves, it returns the
  elementwise reciprocal of the Jacobian, at every entry that is not zero; and for every
  shape whose last axis is not 1, other than (2,2) and (3,3), it raises the
  NotImplementedError.
\<close>

theorem jacobian_inverse_dispatch:
  fixes jacs :: "real ndarray"
  defines "J \<equiv> \<lambda>e p i j. elem jacs [e, p, i, j]"
  assumes "eval rm points 1 msk = Inr jacs"
  shows "(shape jacs = [nE, nP, n, n] \<and> n \<in> {1, 2, 3} \<and> (\<forall>e<nE. \<forall>p<nP. det n (J e p) \<noteq> 0) \<longrightarrow>
            (\<exists>r. jacobian_inverse rm points msk = Inr r \<and> shape r = [nE, nP, n, n]
               \<and> (\<forall>e<nE. \<forall>p<nP. \<forall>i<n. \<forall>j<n.
                     sum_list (map (\<lambda>k. J e p i k * elem r [e, p, k, j]) [0..<n]) = (if i = j then 1 else 0))))
       \<and> (shape jacs = [nE, nP, D, 1] \<and> D \<noteq> 1 \<longrightarrow>
            (\<exists>r. jacobian_inverse rm points msk = Inr r \<and> shape r = [nE, nP, D, 1]
               \<and> (\<forall>e<nE. \<forall>p<nP. \<forall>d<D. J e p d 0 \<noteq> 0 \<longrightarrow> elem r [e, p, d, 0] = 1 / J e p d 0)))
       \<and> (shape jacs \<noteq> [] \<and> last (shape jacs) \<noteq> 1 \<and> trailing2 (shape jacs) \<notin> {[2, 2], [3, 3]} \<longrightarrow>
            jacobian_inverse rm points msk = Inl (NotImplementedError ''Jacobian inverse not available yet!''))"
proof (intro conjI impI; (elim conjE)?)
  assume s: "shape jacs = [nE, nP, n, n]" and n: "n \<in> {1, 2, 3}"
    and d: "\<forall>e<nE. \<forall>p<nP. det n (J e p) \<noteq> 0"
  from inv_square [OF s] d obtain r where r: "np_linalg_inv jacs = Inr r" "shape r = [nE, nP, n, n]"
    "\<forall>e<nE. \<forall>p<nP. \<forall>k<n. \<forall>j<n. elem r [e, p, k, j]
        = (- 1) ^ (k + j) * det (n - 1) (minor (J e p) j k) / det n (J e p)"
    unfolding J_def by blast
  have "jacobian_inverse rm points msk = Inr r"
    using assms(2) s n r(1) by (auto simp: jacobian_inverse_def)
  moreover have "sum_list (map (\<lambda>k. J e p i k * elem r [e, p, k, j]) [0..<n]) = (if i = j then 1 else 0)"
    if "e < nE" "p < nP" "i < n" "j < n" for e p i j
  proof -
    have "sum_list (map (\<lambda>k. J e p i k * elem r [e, p, k, j]) [0..<n])
        = sum_list (map (\<lambda>k. J e p i k * ((- 1) ^ (k + j) * det (n - 1) (minor (J e p) j k) / det n (J e p))) [0..<n])"
      using r(3) that by (intro sum_list_cong_upt) simp
    also have "\<dots> = (if i = j then 1 else 0)"
      using n d that by (intro adjugate_inverse) auto
    finally show ?thesis .
  qed
  ultimately show "\<exists>r. jacobian_inverse rm points msk = Inr r \<and> shape r = [nE, nP, n, n]
               \<and> (\<forall>e<nE. \<forall>p<nP. \<forall>i<n. \<forall>j<n.
                     sum_list (map (\<lambda>k. J e p i k * elem r [e, p, k, j]) [0..<n]) = (if i = j then 1 else 0))"
    using r(2) by blast
next
  assume s: "shape jacs = [nE, nP, D, 1]" and D: "D \<noteq> 1"
  have w: "wf_nd jacs" using assms(2) by (rule eval_wf)
  have "jacobian_inverse rm points msk = Inr (nd_map (\<lambda>x. 1 / x) jacs)"
    using assms(2) s D by (simp add: jacobian_inverse_def)
  moreover have "elem (nd_map (\<lambda>x. 1 / x) jacs) [e, p, d, 0] = 1 / J e p d 0"
    if "e < nE" "p < nP" "d < D" for e p d
    using that w s by (simp add: elem_nd_map J_def)
  ultimately show "\<exists>r. jacobian_inverse rm points msk = Inr r \<and> shape r = [nE, nP, D, 1]
               \<and> (\<forall>e<nE. \<forall>p<nP. \<forall>d<D. J e p d 0 \<noteq> 0 \<longrightarrow> elem r [e, p, d, 0] = 1 / J e p d 0)"
    using s by simp
next
  assume "shape jacs \<noteq> []" "last (shape jacs) \<noteq> 1" "trailing2 (shape jacs) \<notin> {[2, 2], [3, 3]}"
  moreover from this have "trailing2 (shape jacs) \<noteq> [1, 1]"
    by (auto simp: trailing2_def dest: arg_cong [where f = last])
  ultimately show "jacobian_inverse rm points msk = Inl (NotImplementedError ''Jacobian inverse not available yet!'')"
    using assms(2) by (simp add: jacobian_inverse_def)
qed

theorem jacobian_inverse_dispatch_witness:
  "(\<exists>r. jacobian_inverse (ReferenceMap mesh2d) \<lparr>shape = [2, 1], flat = [1 / 4, 1 / 4]\<rparr> None = Inr r
        \<and> shape r = [2, 1, 2, 2]
        \<and> 0 * elem r [1, 0, 0, 0] + (- 2) * elem r [1, 0, 1, 0] = 1
        \<and> 0 * elem r [1, 0, 0, 1] + (- 2) * elem r [1, 0, 1, 1] = 0)
   \<and> (\<exists>r. jacobian_inverse (ReferenceMap segment2d) \<lparr>shape = [1, 1], flat = [1 / 2]\<rparr> None = Inr r
        \<and> shape r = [1, 1, 2, 1] \<and> elem r [0, 0, 0, 0] = 1 / 3 \<and> elem r [0, 0, 1, 0] = 1 / 4)
   \<and> jacobian_inverse (ReferenceMap triangle3d) \<lparr>shape = [2, 1], flat = [1 / 4, 1 / 4]\<rparr> None
        = Inl (NotImplementedError ''Jacobian inverse not available yet!'')"
proof -
  let ?p1 = "\<lparr>shape = [1, 1], flat = [1 / 2 :: real]\<rparr>"
  let ?p2 = "\<lparr>shape = [2, 1], flat = [1 / 4, 1 / 4 :: real]\<rparr>"
  let ?ja = "\<lparr>shape = [1, 1, 2, 1], flat = [3, 4 :: real]\<rparr>"
  let ?jb = "\<lparr>shape = [2, 1, 2, 2], flat = [2, 0, 0, 3, 0, - 2, 3, 3 :: real]\<rparr>"
  let ?jc = "\<lparr>shape = [1, 1, 3, 2], flat = [1, 0, 0, 1, 0, 0 :: real]\<rparr>"
  have a: "eval (ReferenceMap segment2d) ?p1 1 None = Inr ?ja" by code_simp
  have b: "eval (ReferenceMap mesh2d) ?p2 1 None = Inr ?jb" by code_simp
  have c: "eval (ReferenceMap triangle3d) ?p2 1 None = Inr ?jc" by code_simp
  have nz: "\<forall>e<2. \<forall>p<1. det 2 (\<lambda>i j. elem ?jb [e, p, i, j]) \<noteq> 0"
    unfolding all_less_2 by (simp add: det_2 elem_literal)
  from jacobian_inverse_dispatch [OF b, of 2 1 2] nz
  obtain rb where rb: "jacobian_inverse (ReferenceMap mesh2d) ?p2 None = Inr rb" "shape rb = [2, 1, 2, 2]"
    "\<forall>e<2. \<forall>p<1. \<forall>i<2. \<forall>j<2.
        sum_list (map (\<lambda>k. elem ?jb [e, p, i, k] * elem rb [e, p, k, j]) [0..<2]) = (if i = j then 1 else 0)"
    by auto
  from rb(3) have "sum_list (map (\<lambda>k. elem ?jb [1, 0, 0, k] * elem rb [1, 0, k, 0]) [0..<2]) = 1"
    and "sum_list (map (\<lambda>k. elem ?jb [1, 0, 0, k] * elem rb [1, 0, k, 1]) [0..<2]) = 0"
    by simp_all
  then have "0 * elem rb [1, 0, 0, 0] + (- 2) * elem rb [1, 0, 1, 0] = 1"
    and "0 * elem rb [1, 0, 0, 1] + (- 2) * elem rb [1, 0, 1, 1] = 0"
    by (simp_all add: sum_list_upt_2 elem_literal)
  with rb(1,2) have B: "\<exists>r. jacobian_inverse (ReferenceMap mesh2d) ?p2 None = Inr r
        \<and> shape r = [2, 1, 2, 2]
        \<and> 0 * elem r [1, 0, 0, 0] + (- 2) * elem r [1, 0, 1, 0] = 1
        \<and> 0 * elem r [1, 0, 0, 1] + (- 2) * elem r [1, 0, 1, 1] = 0"
    by blast
  from jacobian_inverse_dispatch [OF a, of 1 1 _ 2]
  obtain ra where ra: "jacobian_inverse (ReferenceMap segment2d) ?p1 None = Inr ra" "shape ra = [1, 1, 2, 1]"
    "\<forall>e<1. \<forall>p<1. \<forall>d<2. elem ?ja [e, p, d, 0] \<noteq> 0 \<longrightarrow> elem ra [e, p, d, 0] = 1 / elem ?ja [e, p, d, 0]"
    by auto
  from ra(3) have "elem ra [0, 0, 0, 0] = 1 / 3" "elem ra [0, 0, 1, 0] = 1 / 4"
    by (simp_all add: elem_literal)
  with ra(1,2) have A: "\<exists>r. jacobian_inverse (ReferenceMap segment2d) ?p1 None = Inr r
        \<and> shape r = [1, 1, 2, 1] \<and> elem r [0, 0, 0, 0] = 1 / 3 \<and> elem r [0, 0, 1, 0] = 1 / 4"
    by blast
  from jacobian_inverse_dispatch [OF c]
  have C: "jacobian_inverse (ReferenceMap triangle3d) ?p2 None
        = Inl (NotImplementedError ''Jacobian inverse not available yet!'')"
    by (simp add: trailing2_def)
  from B A C show ?thesis by blast
qed

end
